theory Spec2Isabelle
  imports Complex_Main "HOL-Library.Word"
begin

section \<open>The visual servoing task of ViSP (\<^verbatim>\<open>src/servo/vpServo.cpp\<close>)\<close>

text \<open>
  A shallow embedding of \<^verbatim>\<open>vpServo\<close>: the task is a record of its members, every member
  function takes the task and returns the outcome together with the task as the call
  leaves it (also when the call throws, since a C++ exception keeps the assignments made
  before it). Matrix entries are \<^typ>\<open>real\<close> numbers in place of \<^verbatim>\<open>double\<close>: the
  development is about which operations are applied, in which order and to which
  operands, not about rounding. Row counts, cursors and list lengths are natural numbers,
  as large as the lists and matrices they count. An \<^verbatim>\<open>int\<close> of the source that is
  computed by arithmetic has 32 bits and wraps: the sum that \<^verbatim>\<open>getDimension()\<close> builds in
  \<open>dim_task\<close> is reduced by \<open>int32\<close> after every addition, and the
  \<^verbatim>\<open>static int iteration\<close> of \<^verbatim>\<open>computeControlLaw\<close> is a 32-bit word.
\<close>

subsection \<open>Exceptions and other abnormal outcomes\<close>

text \<open>
  The first five constructors are the exception codes the source throws or lets through
  (\<^verbatim>\<open>vpServoException\<close> and \<^verbatim>\<open>vpMatrixException\<close>). The last three stand for
  undefined behaviour of the C++ code, which the model makes an outcome of its own:
  reading \<^verbatim>\<open>vpList::value()\<close> while the cursor is outside the list, writing a matrix or
  vector cell outside its index range, and using a feature after \<^verbatim>\<open>delete\<close>.
\<close>

datatype vpException =
    servoError
  | noFeatureError
  | noDofFree
  | notKilledProperly
  | incorrectMatrixSizeError
  | listOutside
  | outOfBounds
  | useAfterDelete

text \<open>
  The value that a 32-bit \<^verbatim>\<open>int\<close> holds after an arithmetic result \<open>k\<close> is stored in
  it: \<open>k\<close> modulo \<open>2\<^sup>3\<^sup>2\<close>, between \<open>- 2\<^sup>3\<^sup>1\<close> and \<open>2\<^sup>3\<^sup>1 - 1\<close>.
\<close>

definition int32 :: "int \<Rightarrow> int" where
  "int32 k = signed_take_bit 31 k"

definition bindE :: "vpException + 'a \<Rightarrow> ('a \<Rightarrow> vpException + 'b) \<Rightarrow> vpException + 'b" where
  "bindE m f = (case m of Inl ex \<Rightarrow> Inl ex | Inr x \<Rightarrow> f x)"

subsection \<open>The linear algebra collaborator\<close>

text \<open>
  Modelled from the spec: \<^verbatim>\<open>vpMatrix\<close>, \<^verbatim>\<open>vpColVector\<close> and \<^verbatim>\<open>vpTwistMatrix\<close> are
  declared outside \<^verbatim>\<open>vpServo.cpp\<close>. The spec lists what is consumed: "dynamic resize
  preserving existing contents, fixed-size resize, identity construction, elementwise
  add/scale, matrix product, transpose". A matrix is its column count and its rows; a
  column vector is the list of its entries. Operations on operands whose sizes do not fit
  throw \<^verbatim>\<open>vpMatrixException\<close>.
\<close>

record vpMatrix =
  colNum :: nat
  rowPtrs :: "real list list"

type_synonym vpColVector = "real list"

definition getRows :: "vpMatrix \<Rightarrow> nat" where
  "getRows M = length (rowPtrs M)"

definition getCols :: "vpMatrix \<Rightarrow> nat" where
  "getCols M = colNum M"

text \<open>
  \<^verbatim>\<open>resize\<close> keeps the cells that exist before and after. A cell that is new holds
  whatever the allocator or the library leaves there (zero when the library nullifies):
  the model reads it from the parameter \<open>fresh\<close>, a function of the cell's row and
  column, so that a result proved for every \<open>fresh\<close> does not depend on it.
\<close>

definition resize_vec :: "(nat \<Rightarrow> real) \<Rightarrow> nat \<Rightarrow> vpColVector \<Rightarrow> vpColVector" where
  "resize_vec fresh n v = take n v @ map fresh [length v..<n]"

definition fit_row :: "(nat \<Rightarrow> real) \<Rightarrow> nat \<Rightarrow> real list \<Rightarrow> real list" where
  "fit_row fresh c r = take c r @ map fresh [length r..<c]"

definition resize_mat :: "(nat \<Rightarrow> nat \<Rightarrow> real) \<Rightarrow> nat \<Rightarrow> nat \<Rightarrow> vpMatrix \<Rightarrow> vpMatrix" where
  "resize_mat fresh r c M =
     \<lparr> colNum = c,
       rowPtrs = map (\<lambda>(i, row). fit_row (fresh i) c row) (zip [0..<r] (rowPtrs M))
                 @ map (\<lambda>i. map (fresh i) [0..<c]) [getRows M..<r] \<rparr>"

text \<open>\<^verbatim>\<open>vpMatrix(r, c)\<close>: a zero matrix.\<close>

definition zero_mat :: "nat \<Rightarrow> nat \<Rightarrow> vpMatrix" where
  "zero_mat r c = \<lparr> colNum = c, rowPtrs = replicate r (replicate c 0) \<rparr>"

definition identity_mat :: "nat \<Rightarrow> vpMatrix" where
  "identity_mat n =
     \<lparr> colNum = n,
       rowPtrs = map (\<lambda>i. map (\<lambda>j. if i = j then 1 else 0) [0..<n]) [0..<n] \<rparr>"

definition dot :: "real list \<Rightarrow> real list \<Rightarrow> real" where
  "dot xs ys = sum_list (map (\<lambda>(x, y). x * y) (zip xs ys))"

definition column :: "vpMatrix \<Rightarrow> nat \<Rightarrow> real list" where
  "column M j = map (\<lambda>row. row ! j) (rowPtrs M)"

definition transpose_mat :: "vpMatrix \<Rightarrow> vpMatrix" where
  "transpose_mat M = \<lparr> colNum = getRows M, rowPtrs = map (column M) [0..<colNum M] \<rparr>"

text \<open>
  Modelled from the spec: the twist transforms \<open>cVe\<close>, \<open>cVf\<close> and \<open>fVe\<close> are of the
  class \<^verbatim>\<open>vpTwistMatrix\<close>, 6 by 6 by their type. The product of two of them is the
  6 by 6 product; there are no sizes to compare and nothing is thrown.
\<close>

definition twist_mult :: "vpMatrix \<Rightarrow> vpMatrix \<Rightarrow> vpMatrix" where
  "twist_mult A B =
     \<lparr> colNum = 6,
       rowPtrs = map (\<lambda>i. map (\<lambda>j. sum_list (map (\<lambda>k. rowPtrs A ! i ! k * rowPtrs B ! k ! j)
                                                   [0..<6]))
                               [0..<6])
                     [0..<6] \<rparr>"

definition mat_mult :: "vpMatrix \<Rightarrow> vpMatrix \<Rightarrow> vpException + vpMatrix" where
  "mat_mult A B =
     (if colNum A \<noteq> getRows B then Inl incorrectMatrixSizeError
      else Inr \<lparr> colNum = colNum B,
                 rowPtrs = map (\<lambda>row. map (\<lambda>j. dot row (column B j)) [0..<colNum B])
                               (rowPtrs A) \<rparr>)"

definition mat_vec :: "vpMatrix \<Rightarrow> vpColVector \<Rightarrow> vpException + vpColVector" where
  "mat_vec A v =
     (if colNum A \<noteq> length v then Inl incorrectMatrixSizeError
      else Inr (map (\<lambda>row. dot row v) (rowPtrs A)))"

definition mat_add :: "vpMatrix \<Rightarrow> vpMatrix \<Rightarrow> vpException + vpMatrix" where
  "mat_add A B =
     (if colNum A \<noteq> colNum B \<or> getRows A \<noteq> getRows B then Inl incorrectMatrixSizeError
      else Inr \<lparr> colNum = colNum A,
                 rowPtrs = map (\<lambda>(ra, rb). map (\<lambda>(x, y). x + y) (zip ra rb))
                               (zip (rowPtrs A) (rowPtrs B)) \<rparr>)"

definition mat_sub :: "vpMatrix \<Rightarrow> vpMatrix \<Rightarrow> vpException + vpMatrix" where
  "mat_sub A B =
     (if colNum A \<noteq> colNum B \<or> getRows A \<noteq> getRows B then Inl incorrectMatrixSizeError
      else Inr \<lparr> colNum = colNum A,
                 rowPtrs = map (\<lambda>(ra, rb). map (\<lambda>(x, y). x - y) (zip ra rb))
                               (zip (rowPtrs A) (rowPtrs B)) \<rparr>)"

definition mat_scale :: "real \<Rightarrow> vpMatrix \<Rightarrow> vpMatrix" where
  "mat_scale c M = M\<lparr> rowPtrs := map (map (\<lambda>x. c * x)) (rowPtrs M) \<rparr>"

definition mat_div :: "vpMatrix \<Rightarrow> real \<Rightarrow> vpMatrix" where
  "mat_div M c = M\<lparr> rowPtrs := map (map (\<lambda>x. x / c)) (rowPtrs M) \<rparr>"

definition vec_scale :: "real \<Rightarrow> vpColVector \<Rightarrow> vpColVector" where
  "vec_scale c v = map (\<lambda>x. c * x) v"

definition vec_add :: "vpColVector \<Rightarrow> vpColVector \<Rightarrow> vpException + vpColVector" where
  "vec_add u v =
     (if length u \<noteq> length v then Inl incorrectMatrixSizeError
      else Inr (map (\<lambda>(x, y). x + y) (zip u v)))"

text \<open>
  \<^verbatim>\<open>pseudoInverse(Ap, sv, 1e-6, imA, imAt)\<close> returns the rank and fills the
  pseudo-inverse and the two images. It is a singular value decomposition in the
  library; the model takes its results from the collaborator record below.
\<close>

record pinv_result =
  pinv_rank :: int
  pinv_Ap :: vpMatrix
  pinv_imA :: vpMatrix
  pinv_imAt :: vpMatrix

subsection \<open>The visual feature capability and the other collaborators\<close>

datatype vpBasicFeatureDeallocatorType = user | vpServo_owned

text \<open>The five buffers that \<^verbatim>\<open>vpServo\<close> grows while stacking.\<close>

datatype buffer = buf_L | buf_Lstar | buf_s | buf_sStar | buf_error

text \<open>
  Modelled from the spec: \<^verbatim>\<open>vpBasicFeature\<close> is declared outside \<^verbatim>\<open>vpServo.cpp\<close>. A
  feature is a pointer \<^verbatim>\<open>vpBasicFeature *\<close>, a value of the type \<open>'f\<close>; the virtual
  functions that the task calls through it are the fields of the record
  (\<^verbatim>\<open>getDimension(select)\<close>, \<^verbatim>\<open>interaction(select)\<close>, \<^verbatim>\<open>get_s()\<close>,
  \<^verbatim>\<open>error(s_star, select)\<close>, \<^verbatim>\<open>getDeallocate()\<close>), with the pseudo-inverse of the
  matrix library and the contents of freshly allocated cells.
\<close>

record 'f collaborators =
  feat_getDimension :: "'f \<Rightarrow> int \<Rightarrow> int"
  feat_interaction :: "'f \<Rightarrow> int \<Rightarrow> vpMatrix"
  feat_get_s :: "'f \<Rightarrow> vpColVector"
  feat_error :: "'f \<Rightarrow> 'f \<Rightarrow> int \<Rightarrow> vpColVector"
  feat_getDeallocate :: "'f \<Rightarrow> vpBasicFeatureDeallocatorType"
  pseudoInverse :: "vpMatrix \<Rightarrow> vpException + pinv_result"
  fresh :: "buffer \<Rightarrow> nat \<Rightarrow> nat \<Rightarrow> real"

subsection \<open>The task\<close>

datatype servoEnum =
    NONE
  | EYEINHAND_CAMERA
  | EYEINHAND_L_cVe_eJe
  | EYETOHAND_L_cVe_eJe
  | EYETOHAND_L_cVf_fVe_eJe
  | EYETOHAND_L_cVf_fJe

text \<open>
  The two modes are \<^verbatim>\<open>int\<close> members in the source, set from the enumerators below; the
  model has no other value for them.
\<close>

datatype interactionMatrixEnum = CURRENT | DESIRED | MEAN

datatype inversionEnum = PSEUDO_INVERSE | TRANSPOSE

record 'f vpServo =
  servoType :: servoEnum
  init_cVe :: bool
  init_cVf :: bool
  init_fVe :: bool
  init_eJe :: bool
  init_fJe :: bool
  cVe :: vpMatrix
  cVf :: vpMatrix
  fVe :: vpMatrix
  eJe :: vpMatrix
  fJe :: vpMatrix
  dim_task :: int
  featureList :: "'f list"
  desiredFeatureList :: "'f list"
  featureSelectionList :: "int list"
  signInteractionMatrix :: int
  interactionMatrixType :: interactionMatrixEnum
  inversionType :: inversionEnum
  interactionMatrixComputed :: bool
  errorComputed :: bool
  taskWasKilled :: bool
  L :: vpMatrix
  error :: vpColVector
  s :: vpColVector
  sStar :: vpColVector
  J1 :: vpMatrix
  J1p :: vpMatrix
  rankJ1 :: int
  WpW :: vpMatrix
  I_WpW :: vpMatrix
  e1 :: vpColVector
  e :: vpColVector
  lambda :: "vpColVector \<Rightarrow> real"

text \<open>\<^verbatim>\<open>vpServo::init()\<close>. It empties the two feature lists and not the selection list.\<close>

definition init :: "'f vpServo \<Rightarrow> 'f vpServo" where
  "init st = st\<lparr> servoType := NONE,
                 init_cVe := False, init_cVf := False, init_fVe := False,
                 init_eJe := False, init_fJe := False,
                 dim_task := 0,
                 featureList := [], desiredFeatureList := [],
                 signInteractionMatrix := 1,
                 interactionMatrixType := DESIRED, inversionType := PSEUDO_INVERSE,
                 interactionMatrixComputed := False, errorComputed := False,
                 taskWasKilled := False \<rparr>"

text \<open>
  \<^verbatim>\<open>vpServo::kill()\<close>. The loop walks the current and the desired list together and
  deletes every feature whose deallocator is \<^verbatim>\<open>vpBasicFeature::vpServo\<close>; the model
  returns the deleted features in the order of the \<^verbatim>\<open>delete\<close> statements. \<open>gone\<close> are
  the features that this call has deleted so far: \<^verbatim>\<open>s_ptr->getDeallocate()\<close> on one of
  them is a use after \<^verbatim>\<open>delete\<close>.
\<close>

fun kill_loop :: "'f collaborators \<Rightarrow> 'f list \<Rightarrow> 'f list \<Rightarrow> 'f list \<Rightarrow> vpException + 'f list" where
  "kill_loop env gone [] ds = Inr gone"
| "kill_loop env gone (c # cs) [] = Inl listOutside"
| "kill_loop env gone (c # cs) (d # ds) =
     (if c \<in> set gone then Inl useAfterDelete
      else let gone1 = (if feat_getDeallocate env c = vpServo_owned then gone @ [c] else gone)
           in if d \<in> set gone1 then Inl useAfterDelete
              else let gone2 = (if feat_getDeallocate env d = vpServo_owned then gone1 @ [d] else gone1)
                   in kill_loop env gone2 cs ds)"

definition kill :: "'f collaborators \<Rightarrow> 'f vpServo \<Rightarrow> (vpException + 'f list) \<times> 'f vpServo" where
  "kill env st =
     (if taskWasKilled st = False then
        (case kill_loop env [] (featureList st) (desiredFeatureList st) of
           Inl ex \<Rightarrow> (Inl ex, st)
         | Inr gone \<Rightarrow>
             (Inr gone, st\<lparr> featureList := [], desiredFeatureList := [], taskWasKilled := True \<rparr>))
      else (Inr [], st))"

text \<open>\<^verbatim>\<open>vpServo::addFeature(s, s_star, select)\<close>.\<close>

definition addFeature :: "'f \<Rightarrow> 'f \<Rightarrow> int \<Rightarrow> 'f vpServo \<Rightarrow> 'f vpServo" where
  "addFeature cur des select st =
     st\<lparr> featureList := featureList st @ [cur],
         desiredFeatureList := desiredFeatureList st @ [des],
         featureSelectionList := featureSelectionList st @ [select] \<rparr>"

text \<open>
  \<^verbatim>\<open>vpServo::getDimension()\<close>. The loop runs while the cursor of \<^verbatim>\<open>featureList\<close> is
  inside and reads \<^verbatim>\<open>featureSelectionList\<close> at the same position;
  \<^verbatim>\<open>dim_task += s_ptr->getDimension(select)\<close> is an addition of 32-bit integers.
\<close>

fun getDimension_loop :: "'f collaborators \<Rightarrow> 'f list \<Rightarrow> int list \<Rightarrow> int \<Rightarrow> vpException + int" where
  "getDimension_loop env [] sels d = Inr d"
| "getDimension_loop env (c # cs) [] d = Inl listOutside"
| "getDimension_loop env (c # cs) (select # sels) d =
     getDimension_loop env cs sels (int32 (d + feat_getDimension env c select))"

definition getDimension :: "'f collaborators \<Rightarrow> 'f vpServo \<Rightarrow> (vpException + int) \<times> 'f vpServo" where
  "getDimension env st =
     (case getDimension_loop env (featureList st) (featureSelectionList st) 0 of
        Inl ex \<Rightarrow> (Inl ex, st)
      | Inr d \<Rightarrow> (Inr d, st\<lparr> dim_task := d \<rparr>))"

text \<open>\<^verbatim>\<open>vpServo::setInteractionMatrixType\<close>.\<close>

definition setInteractionMatrixType ::
  "interactionMatrixEnum \<Rightarrow> inversionEnum \<Rightarrow> 'f vpServo \<Rightarrow> 'f vpServo" where
  "setInteractionMatrixType t i st = st\<lparr> interactionMatrixType := t, inversionType := i \<rparr>"

subsection \<open>Stacking the interaction matrix\<close>

text \<open>
  \<^verbatim>\<open>while (rowMatrixTmp + cursorL > rowL) { rowL *= 2; L.resize(rowL, colL, false); }\<close>
  with \<open>colL = 6\<close>. Nothing in the loop itself keeps \<open>rowL\<close> from being zero, where it
  would not end: the loop is a partial function, and \<open>None\<close> is "does not return".
\<close>

partial_function (option) grow_L ::
  "(nat \<Rightarrow> nat \<Rightarrow> real) \<Rightarrow> nat \<Rightarrow> nat \<Rightarrow> vpMatrix \<Rightarrow> (nat \<times> vpMatrix) option" where
  "grow_L fr need rowL M =
     (if need > rowL then grow_L fr need (rowL * 2) (resize_mat fr (rowL * 2) 6 M)
      else Some (rowL, M))"

text \<open>
  \<^verbatim>\<open>for (j = 0; j < colMatrixTmp; ++j) L[cursorL][j] = matrixTmp[k][j];\<close> for one row
  \<open>k\<close>. With no column to copy nothing is accessed; otherwise the row \<open>cursorL\<close> must
  exist in \<open>L\<close> and both rows must have the \<open>colMatrixTmp\<close> cells.
\<close>

definition write_row :: "nat \<Rightarrow> real list \<Rightarrow> nat \<Rightarrow> vpMatrix \<Rightarrow> vpException + vpMatrix" where
  "write_row colMatrixTmp src cursorL M =
     (if colMatrixTmp = 0 then Inr M
      else if getRows M \<le> cursorL \<or> colNum M < colMatrixTmp \<or> length src < colMatrixTmp
        then Inl outOfBounds
      else Inr (M\<lparr> rowPtrs := (rowPtrs M)
                  [cursorL := take colMatrixTmp src @ drop colMatrixTmp (rowPtrs M ! cursorL)] \<rparr>))"

text \<open>\<^verbatim>\<open>for (k = 0; k < rowMatrixTmp; ++k, ++cursorL)\<close> over the rows of \<open>matrixTmp\<close>.\<close>

fun copy_rows :: "nat \<Rightarrow> real list list \<Rightarrow> nat \<Rightarrow> vpMatrix \<Rightarrow> vpException + (nat \<times> vpMatrix)" where
  "copy_rows colMatrixTmp [] cursorL M = Inr (cursorL, M)"
| "copy_rows colMatrixTmp (src # rest) cursorL M =
     (case write_row colMatrixTmp src cursorL M of
        Inl ex \<Rightarrow> Inl ex
      | Inr M1 \<Rightarrow> copy_rows colMatrixTmp rest (Suc cursorL) M1)"

text \<open>The loop over \<^verbatim>\<open>featureList\<close> and \<^verbatim>\<open>featureSelectionList\<close>.\<close>

fun stack_L_loop ::
  "'f collaborators \<Rightarrow> (nat \<Rightarrow> nat \<Rightarrow> real) \<Rightarrow> 'f list \<Rightarrow> int list \<Rightarrow> nat \<Rightarrow> nat \<Rightarrow> vpMatrix
     \<Rightarrow> (vpException + (nat \<times> vpMatrix)) option" where
  "stack_L_loop env fr [] sels rowL cursorL M = Some (Inr (cursorL, M))"
| "stack_L_loop env fr (sPTR # cs) [] rowL cursorL M = Some (Inl listOutside)"
| "stack_L_loop env fr (sPTR # cs) (select # sels) rowL cursorL M =
     (let matrixTmp = feat_interaction env sPTR select;
          rowMatrixTmp = getRows matrixTmp;
          colMatrixTmp = getCols matrixTmp
      in case grow_L fr (rowMatrixTmp + cursorL) rowL M of
           None \<Rightarrow> None
         | Some (rowL1, M1) \<Rightarrow>
             (case copy_rows colMatrixTmp (rowPtrs matrixTmp) cursorL M1 of
                Inl ex \<Rightarrow> Some (Inl ex)
              | Inr (cursorL1, M2) \<Rightarrow> stack_L_loop env fr cs sels rowL1 cursorL1 M2))"

text \<open>
  The static function \<^verbatim>\<open>computeInteractionMatrixFromList(featureList,
  featureSelectionList, L)\<close>; the result is the matrix that the call leaves in \<open>L\<close>.
\<close>

definition computeInteractionMatrixFromList ::
  "'f collaborators \<Rightarrow> (nat \<Rightarrow> nat \<Rightarrow> real) \<Rightarrow> 'f list \<Rightarrow> int list \<Rightarrow> vpMatrix
     \<Rightarrow> (vpException + vpMatrix) option" where
  "computeInteractionMatrixFromList env fr fl sels M =
     (if fl = [] then Some (Inl noFeatureError)
      else
        let rowL = (if getRows M = 0 then 1 else getRows M);
            M0 = (if getRows M = 0 then resize_mat fr 1 6 M else M)
        in case stack_L_loop env fr fl sels rowL 0 M0 of
             None \<Rightarrow> None
           | Some (Inl ex) \<Rightarrow> Some (Inl ex)
           | Some (Inr (cursorL, M1)) \<Rightarrow> Some (Inr (resize_mat fr cursorL 6 M1)))"

text \<open>
  \<^verbatim>\<open>vpServo::computeInteractionMatrix()\<close>. An exception leaves \<open>dim_task\<close> and
  \<open>interactionMatrixComputed\<close> as they were; in the MEAN case \<open>L\<close> already holds the
  matrix of the current features when the second stacking or the sum throws.
\<close>

definition computeInteractionMatrix ::
  "'f collaborators \<Rightarrow> 'f vpServo \<Rightarrow> ((vpException + vpMatrix) \<times> 'f vpServo) option" where
  "computeInteractionMatrix env st =
     (let done = (\<lambda>M. Some (Inr M, st\<lparr> L := M, dim_task := int (getRows M),
                                          interactionMatrixComputed := True \<rparr>))
      in case interactionMatrixType st of
        CURRENT \<Rightarrow>
          (case computeInteractionMatrixFromList env (fresh env buf_L)
                  (featureList st) (featureSelectionList st) (L st) of
             None \<Rightarrow> None
           | Some (Inl ex) \<Rightarrow> Some (Inl ex, st)
           | Some (Inr M) \<Rightarrow> done M)
      | DESIRED \<Rightarrow>
          (case computeInteractionMatrixFromList env (fresh env buf_L)
                  (desiredFeatureList st) (featureSelectionList st) (L st) of
             None \<Rightarrow> None
           | Some (Inl ex) \<Rightarrow> Some (Inl ex, st)
           | Some (Inr M) \<Rightarrow> done M)
      | MEAN \<Rightarrow>
          (let Lstar = zero_mat (getRows (L st)) (getCols (L st))
           in case computeInteractionMatrixFromList env (fresh env buf_L)
                  (featureList st) (featureSelectionList st) (L st) of
             None \<Rightarrow> None
           | Some (Inl ex) \<Rightarrow> Some (Inl ex, st)
           | Some (Inr M) \<Rightarrow>
               (case computeInteractionMatrixFromList env (fresh env buf_Lstar)
                       (desiredFeatureList st) (featureSelectionList st) Lstar of
                  None \<Rightarrow> None
                | Some (Inl ex) \<Rightarrow> Some (Inl ex, st\<lparr> L := M \<rparr>)
                | Some (Inr Mstar) \<Rightarrow>
                    (case mat_add M Mstar of
                       Inl ex \<Rightarrow> Some (Inl ex, st\<lparr> L := M \<rparr>)
                     | Inr Msum \<Rightarrow> done (mat_div Msum 2)))))"

subsection \<open>Stacking the feature, desired feature and error vectors\<close>

text \<open>
  \<^verbatim>\<open>while (dimVectTmp + cursorS > dimS) { dimS *= 2; s.resize(dimS, false); }\<close>, the
  same loop for \<open>sStar\<close> and for \<open>error\<close>.
\<close>

partial_function (option) grow_vec ::
  "(nat \<Rightarrow> real) \<Rightarrow> nat \<Rightarrow> nat \<Rightarrow> vpColVector \<Rightarrow> (nat \<times> vpColVector) option" where
  "grow_vec fr need dimS v =
     (if need > dimS then grow_vec fr need (dimS * 2) (resize_vec fr (dimS * 2) v)
      else Some (dimS, v))"

text \<open>\<^verbatim>\<open>for (k = 0; k < dimVectTmp; ++k) { s[cursorS++] = vectTmp[k]; }\<close>\<close>

definition copy_vec :: "vpColVector \<Rightarrow> nat \<Rightarrow> vpColVector \<Rightarrow> vpException + (nat \<times> vpColVector)" where
  "copy_vec vectTmp cursorS v =
     (if vectTmp \<noteq> [] \<and> length v < cursorS + length vectTmp then Inl outOfBounds
      else Inr (cursorS + length vectTmp,
                take cursorS v @ vectTmp @ drop (cursorS + length vectTmp) v))"

text \<open>
  One of the three blocks of the loop body: grow, then copy. A buffer is the triple of
  its assumed size, its cursor and its vector (\<open>dimS\<close>, \<open>cursorS\<close>, \<open>s\<close>).
\<close>

definition stack_vec ::
  "(nat \<Rightarrow> real) \<Rightarrow> vpColVector \<Rightarrow> nat \<times> nat \<times> vpColVector
     \<Rightarrow> (vpException + (nat \<times> nat \<times> vpColVector)) option" where
  "stack_vec fr vectTmp b =
     (case b of (dimS, cursorS, v) \<Rightarrow>
        (case grow_vec fr (length vectTmp + cursorS) dimS v of
           None \<Rightarrow> None
         | Some (dimS1, v1) \<Rightarrow>
             Some (case copy_vec vectTmp cursorS v1 of
                     Inl ex \<Rightarrow> Inl ex
                   | Inr (cursorS1, v2) \<Rightarrow> Inr (dimS1, cursorS1, v2))))"

fun computeError_loop ::
  "'f collaborators \<Rightarrow> 'f list \<Rightarrow> 'f list \<Rightarrow> int list
     \<Rightarrow> nat \<times> nat \<times> vpColVector \<Rightarrow> nat \<times> nat \<times> vpColVector \<Rightarrow> nat \<times> nat \<times> vpColVector
     \<Rightarrow> (vpException + ((nat \<times> nat \<times> vpColVector) \<times> (nat \<times> nat \<times> vpColVector)
                          \<times> (nat \<times> nat \<times> vpColVector))) option" where
  "computeError_loop env [] ds sels bS bSStar bError = Some (Inr (bS, bSStar, bError))"
| "computeError_loop env (current_s # cs) [] sels bS bSStar bError = Some (Inl listOutside)"
| "computeError_loop env (current_s # cs) (desired_s # ds) [] bS bSStar bError =
     Some (Inl listOutside)"
| "computeError_loop env (current_s # cs) (desired_s # ds) (select # sels) bS bSStar bError =
     (case stack_vec (\<lambda>i. fresh env buf_s i 0) (feat_get_s env current_s) bS of
        None \<Rightarrow> None
      | Some (Inl ex) \<Rightarrow> Some (Inl ex)
      | Some (Inr bS1) \<Rightarrow>
          (case stack_vec (\<lambda>i. fresh env buf_sStar i 0) (feat_get_s env desired_s) bSStar of
             None \<Rightarrow> None
           | Some (Inl ex) \<Rightarrow> Some (Inl ex)
           | Some (Inr bSStar1) \<Rightarrow>
               (case stack_vec (\<lambda>i. fresh env buf_error i 0)
                       (feat_error env current_s desired_s select) bError of
                  None \<Rightarrow> None
                | Some (Inl ex) \<Rightarrow> Some (Inl ex)
                | Some (Inr bError1) \<Rightarrow> computeError_loop env cs ds sels bS1 bSStar1 bError1)))"

text \<open>\<^verbatim>\<open>if (0 == dimS) { dimS = 1; s.resize(dimS); }\<close>\<close>

definition start_vec :: "(nat \<Rightarrow> real) \<Rightarrow> vpColVector \<Rightarrow> nat \<times> nat \<times> vpColVector" where
  "start_vec fr v = (if length v = 0 then (1, 0, resize_vec fr 1 v) else (length v, 0, v))"

text \<open>\<^verbatim>\<open>vpServo::computeError()\<close>.\<close>

definition computeError ::
  "'f collaborators \<Rightarrow> 'f vpServo \<Rightarrow> ((vpException + vpColVector) \<times> 'f vpServo) option" where
  "computeError env st =
     (if featureList st = [] then Some (Inl noFeatureError, st)
      else if desiredFeatureList st = [] then Some (Inl noFeatureError, st)
      else
        case computeError_loop env (featureList st) (desiredFeatureList st)
               (featureSelectionList st)
               (start_vec (\<lambda>i. fresh env buf_s i 0) (s st))
               (start_vec (\<lambda>i. fresh env buf_sStar i 0) (sStar st))
               (start_vec (\<lambda>i. fresh env buf_error i 0) (error st)) of
          None \<Rightarrow> None
        | Some (Inl ex) \<Rightarrow> Some (Inl ex, st)
        | Some (Inr ((dimS, cursorS, v), (dimSStar, cursorSStar, vStar),
                     (dimError, cursorError, vError))) \<Rightarrow>
            (let s1 = resize_vec (\<lambda>i. fresh env buf_s i 0) cursorS v;
                 sStar1 = resize_vec (\<lambda>i. fresh env buf_sStar i 0) cursorSStar vStar;
                 error1 = resize_vec (\<lambda>i. fresh env buf_error i 0) cursorError vError
             in Some (Inr error1,
                      st\<lparr> s := s1, sStar := sStar1, error := error1,
                          dim_task := int (length error1), errorComputed := True \<rparr>)))"

subsection \<open>The kinematic inputs\<close>

text \<open>
  \<^verbatim>\<open>vpServo::testInitialization()\<close> and \<^verbatim>\<open>vpServo::testUpdated()\<close>. Both throw
  when no servo type was chosen; the traces they print are not modelled.
\<close>

definition testInitialization :: "'f vpServo \<Rightarrow> vpException + bool" where
  "testInitialization st =
     (case servoType st of
        NONE \<Rightarrow> Inl servoError
      | EYEINHAND_CAMERA \<Rightarrow> Inr True
      | EYEINHAND_L_cVe_eJe \<Rightarrow> Inr (init_cVe st \<and> init_eJe st)
      | EYETOHAND_L_cVe_eJe \<Rightarrow> Inr (init_cVe st \<and> init_eJe st)
      | EYETOHAND_L_cVf_fVe_eJe \<Rightarrow> Inr (init_cVf st \<and> init_fVe st \<and> init_eJe st)
      | EYETOHAND_L_cVf_fJe \<Rightarrow> Inr (init_cVf st \<and> init_fJe st))"

definition testUpdated :: "'f vpServo \<Rightarrow> vpException + bool" where
  "testUpdated st =
     (case servoType st of
        NONE \<Rightarrow> Inl servoError
      | EYEINHAND_CAMERA \<Rightarrow> Inr True
      | EYEINHAND_L_cVe_eJe \<Rightarrow> Inr (init_eJe st)
      | EYETOHAND_L_cVe_eJe \<Rightarrow> Inr (init_cVe st \<and> init_eJe st)
      | EYETOHAND_L_cVf_fVe_eJe \<Rightarrow> Inr (init_fVe st \<and> init_eJe st)
      | EYETOHAND_L_cVf_fJe \<Rightarrow> Inr (init_fJe st))"

subsection \<open>The control law\<close>

text \<open>
  \<^verbatim>\<open>vpServo::computeControlLaw()\<close>, in the order of its statements. First the two tests:
  \<^verbatim>\<open>testInitialization()\<close> is called when the static counter is zero and a false answer
  throws; \<^verbatim>\<open>testUpdated()\<close> is called on every call and a false answer only prints.
\<close>

definition controlLaw_tests :: "32 word \<Rightarrow> 'f vpServo \<Rightarrow> vpException + unit" where
  "controlLaw_tests iteration st =
     (case (if iteration = 0
            then (case testInitialization st of
                    Inl ex \<Rightarrow> Inl ex
                  | Inr ok \<Rightarrow> if ok = True then Inr () else Inl servoError)
            else Inr ()) of
        Inl ex \<Rightarrow> Inl ex
      | Inr u \<Rightarrow> (case testUpdated st of Inl ex \<Rightarrow> Inl ex | Inr updated \<Rightarrow> Inr ()))"

text \<open>
  The \<^verbatim>\<open>switch (servoType)\<close> that chooses \<open>cVa\<close> and \<open>aJe\<close> and resets the flags of
  the inputs. The result is \<open>cVa\<close>, \<open>aJe\<close> and the task with the flags reset.
\<close>

definition controlLaw_switch :: "'f vpServo \<Rightarrow> vpException + (vpMatrix \<times> vpMatrix \<times> 'f vpServo)" where
  "controlLaw_switch st =
     (case servoType st of
        NONE \<Rightarrow> Inl servoError
      | EYEINHAND_CAMERA \<Rightarrow> Inr (cVe st, eJe st, st\<lparr> init_cVe := False, init_eJe := False \<rparr>)
      | EYEINHAND_L_cVe_eJe \<Rightarrow> Inr (cVe st, eJe st, st\<lparr> init_cVe := False, init_eJe := False \<rparr>)
      | EYETOHAND_L_cVe_eJe \<Rightarrow> Inr (cVe st, eJe st, st\<lparr> init_cVe := False, init_eJe := False \<rparr>)
      | EYETOHAND_L_cVf_fVe_eJe \<Rightarrow>
          Inr (twist_mult (cVf st) (fVe st), eJe st, st\<lparr> init_fVe := False, init_eJe := False \<rparr>)
      | EYETOHAND_L_cVf_fJe \<Rightarrow> Inr (cVf st, fJe st, st\<lparr> init_fJe := False \<rparr>))"

text \<open>
  The inversion of \<open>J1\<close>. The local \<open>imageComputed\<close> with \<open>imJ1\<close> and \<open>imJ1t\<close> is an
  option: \<open>None\<close> while \<open>imageComputed\<close> is false, \<open>Some (imJ1, imJ1t)\<close> afterwards.
\<close>

definition controlLaw_inverse ::
  "'f collaborators \<Rightarrow> 'f vpServo \<Rightarrow> vpException + ('f vpServo \<times> (vpMatrix \<times> vpMatrix) option)" where
  "controlLaw_inverse env st =
     (if inversionType st = PSEUDO_INVERSE then
        (case pseudoInverse env (J1 st) of
           Inl ex \<Rightarrow> Inl ex
         | Inr r \<Rightarrow> Inr (st\<lparr> rankJ1 := pinv_rank r, J1p := pinv_Ap r \<rparr>,
                         Some (pinv_imA r, pinv_imAt r)))
      else Inr (st\<lparr> J1p := transpose_mat (J1 st) \<rparr>, None))"

text \<open>
  The primary task \<open>e1\<close>: \<^verbatim>\<open>if (rankJ1 == L.getCols()) e1 = J1p*error; else { ... WpW =
  imJ1t*imJ1t.t(); e1 = WpW*J1p*error; }\<close>, where the else branch first calls
  \<^verbatim>\<open>pseudoInverse\<close> for the rank and the images when \<open>imageComputed\<close> is false.
\<close>

definition controlLaw_e1 ::
  "'f collaborators \<Rightarrow> (vpMatrix \<times> vpMatrix) option \<Rightarrow> 'f vpServo
     \<Rightarrow> (vpException + vpColVector) \<times> 'f vpServo" where
  "controlLaw_e1 env img st =
     (if rankJ1 st = int (getCols (L st)) then
        (case mat_vec (J1p st) (error st) of
           Inl ex \<Rightarrow> (Inl ex, st)
         | Inr v \<Rightarrow> (Inr v, st\<lparr> e1 := v \<rparr>))
      else
        (case (case img of
                 Some im \<Rightarrow> Inr (st, im)
               | None \<Rightarrow>
                   (case pseudoInverse env (J1 st) of
                      Inl ex \<Rightarrow> Inl ex
                    | Inr r \<Rightarrow> Inr (st\<lparr> rankJ1 := pinv_rank r \<rparr>, (pinv_imA r, pinv_imAt r)))) of
           Inl ex \<Rightarrow> (Inl ex, st)
         | Inr (st1, (imJ1, imJ1t)) \<Rightarrow>
             (case mat_mult imJ1t (transpose_mat imJ1t) of
                Inl ex \<Rightarrow> (Inl ex, st1)
              | Inr W \<Rightarrow>
                  (let st2 = st1\<lparr> WpW := W \<rparr>
                   in case bindE (mat_mult W (J1p st2)) (\<lambda>M. mat_vec M (error st2)) of
                        Inl ex \<Rightarrow> (Inl ex, st2)
                      | Inr v \<Rightarrow> (Inr v, st2\<lparr> e1 := v \<rparr>)))))"

text \<open>
  From \<^verbatim>\<open>J1 = L*cVa*aJe\<close> to \<^verbatim>\<open>e = - lambda(e1) * e1\<close>.
\<close>

definition controlLaw_task ::
  "'f collaborators \<Rightarrow> vpMatrix \<Rightarrow> vpMatrix \<Rightarrow> 'f vpServo \<Rightarrow> (vpException + vpColVector) \<times> 'f vpServo" where
  "controlLaw_task env cVa aJe st =
     (case bindE (mat_mult (L st) cVa) (\<lambda>M. mat_mult M aJe) of
        Inl ex \<Rightarrow> (Inl ex, st)
      | Inr J \<Rightarrow>
          (let st1 = st\<lparr> J1 := mat_scale (of_int (signInteractionMatrix st)) J \<rparr>
           in case controlLaw_inverse env st1 of
                Inl ex \<Rightarrow> (Inl ex, st1)
              | Inr (st2, img) \<Rightarrow>
                  (case controlLaw_e1 env img st2 of
                     (Inl ex, st3) \<Rightarrow> (Inl ex, st3)
                   | (Inr v, st3) \<Rightarrow>
                       (let ev = vec_scale (- lambda st3 v) v
                        in (Inr ev, st3\<lparr> e := ev \<rparr>)))))"

text \<open>
  The whole function. The static local \<open>iteration\<close> belongs to the function and not to
  the object, so it is an argument and a result beside the task; \<^verbatim>\<open>iteration++\<close> comes
  after the \<^verbatim>\<open>try\<close> block and is not reached when the body throws.
\<close>

definition computeControlLaw ::
  "'f collaborators \<Rightarrow> 32 word \<Rightarrow> 'f vpServo
     \<Rightarrow> ((vpException + vpColVector) \<times> 32 word \<times> 'f vpServo) option" where
  "computeControlLaw env iteration st =
     (case controlLaw_tests iteration st of
        Inl ex \<Rightarrow> Some (Inl ex, iteration, st)
      | Inr u \<Rightarrow>
          (case controlLaw_switch st of
             Inl ex \<Rightarrow> Some (Inl ex, iteration, st)
           | Inr (cVa, aJe, st1) \<Rightarrow>
               (case computeInteractionMatrix env st1 of
                  None \<Rightarrow> None
                | Some (Inl ex, st2) \<Rightarrow> Some (Inl ex, iteration, st2)
                | Some (Inr M, st2) \<Rightarrow>
                    (case computeError env st2 of
                       None \<Rightarrow> None
                     | Some (Inl ex, st3) \<Rightarrow> Some (Inl ex, iteration, st3)
                     | Some (Inr v, st3) \<Rightarrow>
                         (case controlLaw_task env cVa aJe st3 of
                            (Inl ex, st4) \<Rightarrow> Some (Inl ex, iteration, st4)
                          | (Inr ev, st4) \<Rightarrow> Some (Inr ev, iteration + 1, st4))))))"

subsection \<open>The secondary task\<close>

text \<open>\<^verbatim>\<open>vpServo::secondaryTask(de2dt)\<close>.\<close>

definition secondaryTask ::
  "vpColVector \<Rightarrow> 'f vpServo \<Rightarrow> (vpException + vpColVector) \<times> 'f vpServo" where
  "secondaryTask de2dt st =
     (if rankJ1 st = int (getCols (L st)) then (Inl noDofFree, st)
      else
        (case mat_sub (identity_mat (getCols (J1 st))) (WpW st) of
           Inl ex \<Rightarrow> (Inl ex, st)
         | Inr P \<Rightarrow>
             (let st1 = st\<lparr> I_WpW := P \<rparr>
              in case mat_vec P de2dt of
                   Inl ex \<Rightarrow> (Inl ex, st1)
                 | Inr sec \<Rightarrow> (Inr sec, st1))))"

text \<open>
  \<^verbatim>\<open>vpServo::secondaryTask(e2, de2dt)\<close>:
  \<^verbatim>\<open>sec = -lambda(e2) *I_WpW*e2 + I_WpW *de2dt\<close>, that is
  \<open>((- lambda e2) * I_WpW) * e2 + I_WpW * de2dt\<close>.
\<close>

definition secondaryTask_e2 ::
  "vpColVector \<Rightarrow> vpColVector \<Rightarrow> 'f vpServo \<Rightarrow> (vpException + vpColVector) \<times> 'f vpServo" where
  "secondaryTask_e2 e2 de2dt st =
     (if rankJ1 st = int (getCols (L st)) then (Inl noDofFree, st)
      else
        (case mat_sub (identity_mat (getCols (J1 st))) (WpW st) of
           Inl ex \<Rightarrow> (Inl ex, st)
         | Inr P \<Rightarrow>
             (let st1 = st\<lparr> I_WpW := P \<rparr>
              in case bindE (mat_vec (mat_scale (- lambda st1 e2) P) e2)
                        (\<lambda>a. bindE (mat_vec P de2dt) (\<lambda>b. vec_add a b)) of
                   Inl ex \<Rightarrow> (Inl ex, st1)
                 | Inr sec \<Rightarrow> (Inr sec, st1))))"

subsection \<open>Notions used in the statements\<close>

text \<open>
  What the feature capability promises about \<^verbatim>\<open>interaction(select)\<close>: a matrix of six
  columns (the spec's \<open>Matrix[dimension \<times> 6]\<close>) whose rows all have six entries.
\<close>

definition wf_interaction :: "'f collaborators \<Rightarrow> 'f \<Rightarrow> int \<Rightarrow> bool" where
  "wf_interaction env c select =
     (colNum (feat_interaction env c select) = 6 \<and>
      list_all (\<lambda>r. length r = 6) (rowPtrs (feat_interaction env c select)))"

text \<open>
  The spec's stacked quantity: the contributions of the features one below the other, in
  the order of registration.
\<close>

definition spec_stacked_rows :: "'f collaborators \<Rightarrow> 'f list \<Rightarrow> int list \<Rightarrow> real list list" where
  "spec_stacked_rows env fl sels =
     concat (map (\<lambda>(c, select). rowPtrs (feat_interaction env c select)) (zip fl sels))"

text \<open>The spec's elementwise average of two matrices.\<close>

definition spec_average :: "vpMatrix \<Rightarrow> vpMatrix \<Rightarrow> vpMatrix" where
  "spec_average A B =
     \<lparr> colNum = colNum A,
       rowPtrs = map (\<lambda>(ra, rb). map (\<lambda>(x, y). (x + y) / 2) (zip ra rb))
                     (zip (rowPtrs A) (rowPtrs B)) \<rparr>"

text \<open>
  The task with the five flags of the kinematic inputs set as given and everything else
  as it is.
\<close>

definition with_flags :: "bool \<Rightarrow> bool \<Rightarrow> bool \<Rightarrow> bool \<Rightarrow> bool \<Rightarrow> 'f vpServo \<Rightarrow> 'f vpServo" where
  "with_flags a b c d f st =
     st\<lparr> init_cVe := a, init_cVf := b, init_fVe := c, init_eJe := d, init_fJe := f \<rparr>"

text \<open>
  The invariants of the stacking loop for the vectors and of the one for the matrix. A vector buffer of assumed size
  \<open>dimS\<close> holds \<open>acc\<close> when the vector has \<open>dimS\<close> entries, the cursor stands
  behind \<open>acc\<close> and the entries before the cursor are \<open>acc\<close>. For the matrix the
  first six entries of each row before the cursor count.
\<close>

definition vec_holds :: "nat \<times> nat \<times> vpColVector \<Rightarrow> vpColVector \<Rightarrow> bool" where
  "vec_holds b acc =
     (case b of (dimS, cursorS, v) \<Rightarrow>
        0 < dimS \<and> length v = dimS \<and> cursorS = length acc \<and> cursorS \<le> dimS \<and> take cursorS v = acc)"

definition mat_holds :: "nat \<times> nat \<times> vpMatrix \<Rightarrow> real list list \<Rightarrow> bool" where
  "mat_holds b acc =
     (case b of (rowL, cursorL, M) \<Rightarrow>
        0 < rowL \<and> getRows M = rowL \<and> cursorL = length acc \<and> cursorL \<le> rowL \<and> 6 \<le> colNum M \<and>
        map (take 6) (take cursorL (rowPtrs M)) = acc \<and> list_all (\<lambda>r. length r = 6) acc)"

subsection \<open>A concrete task\<close>

text \<open>
  The concrete inputs of the closed theorems below. Features are numbered: feature 0 is
  a current feature of the caller, with the value \<open>(1, 1)\<close>; every other feature has the
  value \<open>(0, 0)\<close>, and feature 1 is owned by the task. The dimension of a feature is the
  number of the two lowest bits of the mask that are set, except for feature 7, which
  reports the largest 32-bit integer.
  The interaction matrix of feature 0 is \<open>example_Ls\<close>, that of every other feature is
  \<open>example_L\<close>, whose rows are \<open>(1, 0, 0, 0, 0, 0)\<close> and
  \<open>(0, 2\<^sup>-\<^sup>2\<^sup>4, 0, 0, 0, 0)\<close>.

  The singular values of \<open>example_L\<close> are \<open>1\<close> and \<open>2\<^sup>-\<^sup>2\<^sup>4\<close>, about \<open>6 \<times> 10\<^sup>-\<^sup>8\<close>.
  With the tolerance \<open>10\<^sup>-\<^sup>6\<close> of \<^verbatim>\<open>pseudoInverse\<close> the second one counts as zero:
  the rank is 1, the pseudo-inverse inverts the first singular value only, and the
  images of the matrix and of its transpose are spanned by the first unit vectors.
  \<open>example_pinv\<close> holds these results for \<open>example_L\<close> (sign \<open>1\<close>) and for
  \<open>- example_L\<close> (sign \<open>- 1\<close>); the example collaborator answers for these two
  matrices only.
\<close>

definition example_L :: vpMatrix where
  "example_L = \<lparr> colNum = 6, rowPtrs = [[1, 0, 0, 0, 0, 0], [0, 1 / 16777216, 0, 0, 0, 0]] \<rparr>"

definition example_Ls :: vpMatrix where
  "example_Ls = \<lparr> colNum = 6, rowPtrs = [[3, 0, 0, 0, 0, 0], [0, 1, 0, 0, 0, 0]] \<rparr>"

definition example_pinv :: "real \<Rightarrow> pinv_result" where
  "example_pinv sg =
     \<lparr> pinv_rank = 1,
       pinv_Ap = \<lparr> colNum = 2, rowPtrs = [[sg, 0], [0, 0], [0, 0], [0, 0], [0, 0], [0, 0]] \<rparr>,
       pinv_imA = \<lparr> colNum = 1, rowPtrs = [[1], [0]] \<rparr>,
       pinv_imAt = \<lparr> colNum = 1, rowPtrs = [[1], [0], [0], [0], [0], [0]] \<rparr> \<rparr>"

definition example_env :: "nat collaborators" where
  "example_env =
     \<lparr> feat_getDimension = (\<lambda>f select. if f = 7 then 2147483647
                                        else (if odd select then 1 else 0) +
                                             (if odd (select div 2) then 1 else 0)),
       feat_interaction = (\<lambda>f select. if f = 0 then example_Ls else example_L),
       feat_get_s = (\<lambda>f. if f = 0 then [1, 1] else [0, 0]),
       feat_error = (\<lambda>c d select. if c = 0 \<and> d \<noteq> 0 then [1, 1] else [0, 0]),
       feat_getDeallocate = (\<lambda>f. if f = 1 then vpServo_owned else user),
       pseudoInverse = (\<lambda>J. if J = example_L then Inr (example_pinv 1)
                              else if J = mat_scale (- 1) example_L then Inr (example_pinv (- 1))
                              else Inl incorrectMatrixSizeError),
       fresh = (\<lambda>b i j. 0) \<rparr>"

definition empty_mat :: vpMatrix where
  "empty_mat = \<lparr> colNum = 0, rowPtrs = [] \<rparr>"

text \<open>
  A task as \<^verbatim>\<open>vpServo(EYEINHAND_CAMERA)\<close> followed by
  \<^verbatim>\<open>addFeature(s, s_star, select)\<close> leaves it: \<^verbatim>\<open>setServo\<close> has supplied the identity for
  \<open>cVe\<close> and \<open>eJe\<close>, features 0 and 1 are registered, nothing is computed yet.
\<close>

definition example_task :: "nat vpServo" where
  "example_task =
     \<lparr> servoType = EYEINHAND_CAMERA,
       init_cVe = True, init_cVf = False, init_fVe = False, init_eJe = True, init_fJe = False,
       cVe = identity_mat 6, cVf = identity_mat 6, fVe = identity_mat 6,
       eJe = identity_mat 6, fJe = empty_mat,
       dim_task = 0,
       featureList = [0], desiredFeatureList = [1], featureSelectionList = [3],
       signInteractionMatrix = 1,
       interactionMatrixType = DESIRED, inversionType = PSEUDO_INVERSE,
       interactionMatrixComputed = False, errorComputed = False, taskWasKilled = False,
       L = empty_mat, error = [], s = [], sStar = [],
       J1 = empty_mat, J1p = empty_mat, rankJ1 = 0, WpW = empty_mat, I_WpW = empty_mat,
       e1 = [], e = [], lambda = (\<lambda>v. 1) \<rparr>"

text \<open>
  The example task after a first cycle, in the pseudo-inverse mode, and after a second
  cycle for which the caller has chosen the transpose.
\<close>

definition example_task1 :: "nat vpServo" where
  "example_task1 = snd (snd (the (computeControlLaw example_env 0 example_task)))"

definition example_task2 :: "nat vpServo" where
  "example_task2 =
     snd (snd (the (computeControlLaw example_env 1
                      (setInteractionMatrixType DESIRED TRANSPOSE example_task1))))"

text \<open>
  An eye-to-hand task that uses \<open>cVf\<close> and \<open>fJe\<close>, both supplied by the caller, and
  an eye-in-hand task in the articular frame whose caller has supplied \<open>eJe\<close> and
  not \<open>cVe\<close>.
\<close>

definition example_task_cVf_fJe :: "nat vpServo" where
  "example_task_cVf_fJe =
     example_task\<lparr> servoType := EYETOHAND_L_cVf_fJe, signInteractionMatrix := - 1,
                    init_cVe := False, init_eJe := False, init_cVf := True, init_fJe := True,
                    fJe := identity_mat 6 \<rparr>"

definition example_task_cVe_missing :: "nat vpServo" where
  "example_task_cVe_missing =
     example_task\<lparr> servoType := EYEINHAND_L_cVe_eJe, init_cVe := False, init_eJe := True \<rparr>"

text \<open>The example task without features, with the dimension of an earlier cycle.\<close>

definition example_task_empty :: "nat vpServo" where
  "example_task_empty =
     example_task\<lparr> featureList := [], desiredFeatureList := [], dim_task := 2 \<rparr>"

declare grow_L.simps [code]
declare grow_vec.simps [code]

section \<open>Properties\<close>

subsection \<open>Stacking\<close>

lemma grow_vec_spec:
  "0 < dimS \<Longrightarrow> length v = dimS \<Longrightarrow>
   \<exists>dimS1 v1. grow_vec fr need dimS v = Some (dimS1, v1) \<and> need \<le> dimS1 \<and>
              length v1 = dimS1 \<and> dimS \<le> dimS1 \<and> take dimS v1 = v"
proof (induction "need - dimS" arbitrary: dimS v rule: less_induct)
  case less
  show ?case
  proof (cases "dimS < need")
    case False
    with less.prems show ?thesis by (subst grow_vec.simps) simp
  next
    case True
    let ?v = "resize_vec fr (dimS * 2) v"
    have len: "length ?v = dimS * 2"
      using less.prems by (simp add: resize_vec_def)
    have "need - dimS * 2 < need - dimS" using True less.prems by arith
    from less.hyps [OF this _ len] less.prems
    obtain d1 v1 where g: "grow_vec fr need (dimS * 2) ?v = Some (d1, v1)"
      and p: "need \<le> d1" "length v1 = d1" "dimS * 2 \<le> d1" "take (dimS * 2) v1 = ?v"
      by auto
    have "take dimS v1 = take dimS (take (dimS * 2) v1)" by (simp add: min_def)
    also have "\<dots> = v" using p(4) less.prems by (simp add: resize_vec_def)
    finally have "take dimS v1 = v" .
    with g p True show ?thesis by (subst grow_vec.simps) simp
  qed
qed

lemma stack_vec_holds:
  assumes "vec_holds b acc"
  shows "\<exists>b1. stack_vec fr tmp b = Some (Inr b1) \<and> vec_holds b1 (acc @ tmp)"
proof -
  obtain dimS cursorS v where b: "b = (dimS, cursorS, v)" by (cases b) auto
  with assms have h: "0 < dimS" "length v = dimS" "cursorS = length acc" "cursorS \<le> dimS"
    "take cursorS v = acc" by (auto simp: vec_holds_def)
  from grow_vec_spec [OF h(1) h(2), of fr "length tmp + cursorS"]
  obtain d1 v1 where g: "grow_vec fr (length tmp + cursorS) dimS v = Some (d1, v1)"
    and p: "length tmp + cursorS \<le> d1" "length v1 = d1" "dimS \<le> d1" "take dimS v1 = v"
    by auto
  have "take cursorS v1 = take cursorS (take dimS v1)" using h(4) by (simp add: min_def)
  then have t: "take cursorS v1 = acc" using p(4) h(5) by simp
  have c: "copy_vec tmp cursorS v1 =
             Inr (cursorS + length tmp, take cursorS v1 @ tmp @ drop (cursorS + length tmp) v1)"
    using p by (simp add: copy_vec_def)
  have "vec_holds (d1, cursorS + length tmp, take cursorS v1 @ tmp @ drop (cursorS + length tmp) v1)
          (acc @ tmp)"
    using p h t by (auto simp: vec_holds_def)
  with g c b show ?thesis by (simp add: stack_vec_def)
qed

lemma start_vec_holds: "vec_holds (start_vec fr v) []"
  by (simp add: start_vec_def vec_holds_def resize_vec_def)

lemma vec_holds_final:
  "vec_holds (dimS, cursorS, v) acc \<Longrightarrow> resize_vec fr cursorS v = acc"
  by (auto simp: vec_holds_def resize_vec_def)

lemma computeError_loop_holds:
  assumes "length cs \<le> length ds" "length cs \<le> length sels"
    "vec_holds bS accS" "vec_holds bSStar accSStar" "vec_holds bError accError"
  shows "\<exists>bS1 bSStar1 bError1.
           computeError_loop env cs ds sels bS bSStar bError = Some (Inr (bS1, bSStar1, bError1)) \<and>
           vec_holds bS1 (accS @ concat (map (feat_get_s env) cs)) \<and>
           vec_holds bSStar1 (accSStar @ concat (map (feat_get_s env) (take (length cs) ds))) \<and>
           vec_holds bError1
             (accError @ concat (map (\<lambda>(c, d, select). feat_error env c d select)
                                     (zip cs (zip ds sels))))"
  using assms
proof (induction env cs ds sels bS bSStar bError arbitrary: accS accSStar accError
       rule: computeError_loop.induct)
  case (1 env ds sels bS bSStar bError)
  then show ?case by simp
next
  case (2 env current_s cs sels bS bSStar bError)
  then show ?case by simp
next
  case (3 env current_s cs desired_s ds bS bSStar bError)
  then show ?case by simp
next
  case (4 env current_s cs desired_s ds select sels bS bSStar bError)
  from stack_vec_holds [OF 4(4)] obtain bS1 where
    s1: "stack_vec (\<lambda>i. fresh env buf_s i 0) (feat_get_s env current_s) bS = Some (Inr bS1)"
    and h1: "vec_holds bS1 (accS @ feat_get_s env current_s)" by blast
  from stack_vec_holds [OF 4(5)] obtain bSStar1 where
    s2: "stack_vec (\<lambda>i. fresh env buf_sStar i 0) (feat_get_s env desired_s) bSStar = Some (Inr bSStar1)"
    and h2: "vec_holds bSStar1 (accSStar @ feat_get_s env desired_s)" by blast
  from stack_vec_holds [OF 4(6)] obtain bError1 where
    s3: "stack_vec (\<lambda>i. fresh env buf_error i 0) (feat_error env current_s desired_s select) bError
           = Some (Inr bError1)"
    and h3: "vec_holds bError1 (accError @ feat_error env current_s desired_s select)" by blast
  have l: "length cs \<le> length ds" "length cs \<le> length sels" using 4(2,3) by simp_all
  from 4(1) [OF s1 _ s2 _ s3 _ l h1 h2 h3] s1 s2 s3
  show ?case by simp
qed

lemma getRows_resize_mat: "getRows (resize_mat fr r c M) = r"
  by (auto simp: getRows_def resize_mat_def)

lemma fit_row_full: "6 \<le> length row \<Longrightarrow> fit_row f 6 row = take 6 row"
  by (simp add: fit_row_def)

lemma take_resize_mat:
  assumes "n \<le> getRows M" "n \<le> r" "\<forall>i<n. 6 \<le> length (rowPtrs M ! i)"
  shows "take n (rowPtrs (resize_mat fr r 6 M)) = map (take 6) (take n (rowPtrs M))"
proof (rule nth_equalityI)
  show "length (take n (rowPtrs (resize_mat fr r 6 M))) = length (map (take 6) (take n (rowPtrs M)))"
    using assms getRows_resize_mat [of fr r 6 M] by (simp add: getRows_def)
next
  fix i assume "i < length (take n (rowPtrs (resize_mat fr r 6 M)))"
  then have i: "i < n" by simp
  with assms have ir: "i < r" "i < length (rowPtrs M)" by (simp_all add: getRows_def)
  then have "rowPtrs (resize_mat fr r 6 M) ! i = fit_row (fr i) 6 (rowPtrs M ! i)"
    by (simp add: resize_mat_def nth_append)
  also have "\<dots> = take 6 (rowPtrs M ! i)" using assms(3) i by (simp add: fit_row_full)
  finally show "take n (rowPtrs (resize_mat fr r 6 M)) ! i = map (take 6) (take n (rowPtrs M)) ! i"
    using i ir by simp
qed

lemma mat_holds_rows:
  assumes "mat_holds (rowL, cursorL, M) acc"
  shows "\<forall>i<cursorL. 6 \<le> length (rowPtrs M ! i)"
proof (intro allI impI)
  fix i assume i: "i < cursorL"
  from assms have a: "map (take 6) (take cursorL (rowPtrs M)) = acc" "list_all (\<lambda>r. length r = 6) acc"
    "cursorL \<le> rowL" "getRows M = rowL" "cursorL = length acc"
    by (auto simp: mat_holds_def)
  have "map (take 6) (take cursorL (rowPtrs M)) ! i = take 6 (rowPtrs M ! i)"
    using a(3,4) i by (simp add: getRows_def)
  then have "acc ! i = take 6 (rowPtrs M ! i)" by (simp only: a(1))
  moreover from a i have "length (acc ! i) = 6" by (simp add: list_all_length)
  ultimately show "6 \<le> length (rowPtrs M ! i)" by (simp add: min_def split: if_splits)
qed

lemma resize_mat_holds:
  assumes "mat_holds (rowL, cursorL, M) acc" "rowL \<le> r"
  shows "mat_holds (r, cursorL, resize_mat fr r 6 M) acc"
proof -
  from assms have a: "0 < rowL" "getRows M = rowL" "cursorL = length acc" "cursorL \<le> rowL"
    "map (take 6) (take cursorL (rowPtrs M)) = acc" "list_all (\<lambda>r. length r = 6) acc"
    by (auto simp: mat_holds_def)
  have "take cursorL (rowPtrs (resize_mat fr r 6 M)) = map (take 6) (take cursorL (rowPtrs M))"
    using take_resize_mat [of cursorL M r fr] mat_holds_rows [OF assms(1)] a assms(2) by simp
  then have "map (take 6) (take cursorL (rowPtrs (resize_mat fr r 6 M)))
               = map (take 6) (take cursorL (rowPtrs M))"
    by (simp add: comp_def)
  then have "map (take 6) (take cursorL (rowPtrs (resize_mat fr r 6 M))) = acc"
    by (simp only: a(5))
  moreover have "colNum (resize_mat fr r 6 M) = 6" by (simp add: resize_mat_def)
  ultimately show ?thesis
    using a assms(2) getRows_resize_mat [of fr r 6 M] by (simp add: mat_holds_def)
qed

lemma grow_L_holds:
  "mat_holds (rowL, cursorL, M) acc \<Longrightarrow>
   \<exists>rowL1 M1. grow_L fr need rowL M = Some (rowL1, M1) \<and> need \<le> rowL1 \<and>
              mat_holds (rowL1, cursorL, M1) acc"
proof (induction "need - rowL" arbitrary: rowL M rule: less_induct)
  case less
  show ?case
  proof (cases "rowL < need")
    case False
    with less.prems show ?thesis by (subst grow_L.simps) simp
  next
    case True
    from less.prems have pos: "0 < rowL" by (simp add: mat_holds_def)
    have h: "mat_holds (rowL * 2, cursorL, resize_mat fr (rowL * 2) 6 M) acc"
      using resize_mat_holds [OF less.prems, of "rowL * 2" fr] by simp
    have "need - rowL * 2 < need - rowL" using True pos by arith
    from less.hyps [OF this h]
    obtain r1 M1 where "grow_L fr need (rowL * 2) (resize_mat fr (rowL * 2) 6 M) = Some (r1, M1)"
      "need \<le> r1" "mat_holds (r1, cursorL, M1) acc" by blast
    with True show ?thesis by (subst grow_L.simps) simp
  qed
qed

lemma copy_rows_holds:
  "mat_holds (rowL, cursorL, M) acc \<Longrightarrow> cursorL + length rows \<le> rowL \<Longrightarrow>
   list_all (\<lambda>r. length r = 6) rows \<Longrightarrow>
   \<exists>M1. copy_rows 6 rows cursorL M = Inr (cursorL + length rows, M1) \<and>
        mat_holds (rowL, cursorL + length rows, M1) (acc @ rows)"
proof (induction rows arbitrary: cursorL M acc)
  case Nil
  then show ?case by simp
next
  case (Cons src rest)
  from Cons.prems(1) have a: "0 < rowL" "getRows M = rowL" "cursorL = length acc" "6 \<le> colNum M"
    "map (take 6) (take cursorL (rowPtrs M)) = acc" "list_all (\<lambda>r. length r = 6) acc"
    by (auto simp: mat_holds_def)
  from Cons.prems have b: "cursorL < rowL" "length src = 6" by simp_all
  let ?M = "M\<lparr> rowPtrs := (rowPtrs M)[cursorL := take 6 src @ drop 6 (rowPtrs M ! cursorL)] \<rparr>"
  have w: "write_row 6 src cursorL M = Inr ?M"
    using a b by (simp add: write_row_def)
  have "take (Suc cursorL) (rowPtrs ?M) = take cursorL (rowPtrs M) @ [src @ drop 6 (rowPtrs M ! cursorL)]"
    using a b by (simp add: take_Suc_conv_app_nth getRows_def)
  then have "map (take 6) (take (Suc cursorL) (rowPtrs ?M)) = acc @ [src]"
    using a b by simp
  then have h: "mat_holds (rowL, Suc cursorL, ?M) (acc @ [src])"
    using a b by (simp add: mat_holds_def getRows_def)
  from Cons.IH [OF h] Cons.prems(2,3)
  obtain M1 where "copy_rows 6 rest (Suc cursorL) ?M = Inr (Suc cursorL + length rest, M1)"
    "mat_holds (rowL, Suc cursorL + length rest, M1) ((acc @ [src]) @ rest)" by auto
  with w show ?case by simp
qed

lemma stack_L_loop_holds:
  "length cs \<le> length sels \<Longrightarrow>
   list_all (\<lambda>(c, select). wf_interaction env c select) (zip cs sels) \<Longrightarrow>
   mat_holds (rowL, cursorL, M) acc \<Longrightarrow>
   \<exists>rowL1 cursorL1 M1.
      stack_L_loop env fr cs sels rowL cursorL M = Some (Inr (cursorL1, M1)) \<and>
      mat_holds (rowL1, cursorL1, M1) (acc @ spec_stacked_rows env cs sels)"
proof (induction env fr cs sels rowL cursorL M arbitrary: acc rule: stack_L_loop.induct)
  case (1 env fr sels rowL cursorL M)
  then show ?case by (auto simp: spec_stacked_rows_def)
next
  case (2 env fr sPTR cs rowL cursorL M)
  then show ?case by simp
next
  case (3 env fr sPTR cs select sels rowL cursorL M)
  let ?T = "feat_interaction env sPTR select"
  from 3(3) have wf: "colNum ?T = 6" "list_all (\<lambda>r. length r = 6) (rowPtrs ?T)"
    and wfs: "list_all (\<lambda>(c, select). wf_interaction env c select) (zip cs sels)"
    by (simp_all add: wf_interaction_def)
  from grow_L_holds [OF 3(4), of fr "getRows ?T + cursorL"]
  obtain r1 M1 where g: "grow_L fr (getRows ?T + cursorL) rowL M = Some (r1, M1)"
    and n: "getRows ?T + cursorL \<le> r1" and h1: "mat_holds (r1, cursorL, M1) acc" by blast
  from copy_rows_holds [OF h1 _ wf(2)] n
  obtain M2 where c: "copy_rows 6 (rowPtrs ?T) cursorL M1 = Inr (cursorL + getRows ?T, M2)"
    and h2: "mat_holds (r1, cursorL + getRows ?T, M2) (acc @ rowPtrs ?T)"
    by (auto simp: getRows_def add.commute)
  have l: "length cs \<le> length sels" using 3(2) by simp
  from c wf(1) have c': "copy_rows (getCols ?T) (rowPtrs ?T) cursorL M1 = Inr (cursorL + getRows ?T, M2)"
    by (simp add: getCols_def)
  from 3(1) [OF refl refl refl g refl c' refl l wfs h2]
  show ?case using g c' by (simp add: spec_stacked_rows_def)
qed

lemma computeInteractionMatrixFromList_stacked:
  assumes "fl \<noteq> []" "length fl \<le> length sels"
    "list_all (\<lambda>(c, select). wf_interaction env c select) (zip fl sels)"
    "getRows M = 0 \<or> 6 \<le> colNum M"
  shows "computeInteractionMatrixFromList env fr fl sels M =
           Some (Inr \<lparr> colNum = 6, rowPtrs = spec_stacked_rows env fl sels \<rparr>)"
proof -
  let ?rowL = "if getRows M = 0 then 1 else getRows M"
  let ?M0 = "if getRows M = 0 then resize_mat fr 1 6 M else M"
  have "colNum (resize_mat fr 1 6 M) = 6" by (simp add: resize_mat_def)
  then have "mat_holds (?rowL, 0, ?M0) []"
    using assms(4) getRows_resize_mat [of fr 1 6 M] by (auto simp: mat_holds_def)
  from stack_L_loop_holds [OF assms(2,3) this, of fr]
  obtain r1 c1 M1 where s: "stack_L_loop env fr fl sels ?rowL 0 ?M0 = Some (Inr (c1, M1))"
    and h: "mat_holds (r1, c1, M1) (spec_stacked_rows env fl sels)" by auto
  from h have a: "c1 \<le> getRows M1" "map (take 6) (take c1 (rowPtrs M1)) = spec_stacked_rows env fl sels"
    by (auto simp: mat_holds_def)
  have "take c1 (rowPtrs (resize_mat fr c1 6 M1)) = map (take 6) (take c1 (rowPtrs M1))"
    using take_resize_mat [of c1 M1 c1 fr] mat_holds_rows [OF h] a by simp
  moreover have "length (rowPtrs (resize_mat fr c1 6 M1)) = c1"
    using getRows_resize_mat [of fr c1 6 M1] by (simp add: getRows_def)
  ultimately have "rowPtrs (resize_mat fr c1 6 M1) = spec_stacked_rows env fl sels"
    using a by simp
  moreover have "colNum (resize_mat fr c1 6 M1) = 6" by (simp add: resize_mat_def)
  ultimately have "resize_mat fr c1 6 M1 = \<lparr> colNum = 6, rowPtrs = spec_stacked_rows env fl sels \<rparr>"
    by simp
  with s assms(1) show ?thesis
    by (simp add: computeInteractionMatrixFromList_def Let_def)
qed

lemma computeError_stacked:
  assumes "featureList st \<noteq> []"
    "length (featureList st) \<le> length (desiredFeatureList st)"
    "length (featureList st) \<le> length (featureSelectionList st)"
  shows "computeError env st =
     Some (Inr (concat (map (\<lambda>(c, d, select). feat_error env c d select)
                  (zip (featureList st) (zip (desiredFeatureList st) (featureSelectionList st))))),
           st\<lparr> s := concat (map (feat_get_s env) (featureList st)),
               sStar := concat (map (feat_get_s env)
                           (take (length (featureList st)) (desiredFeatureList st))),
               error := concat (map (\<lambda>(c, d, select). feat_error env c d select)
                  (zip (featureList st) (zip (desiredFeatureList st) (featureSelectionList st)))),
               dim_task := int (length (concat (map (\<lambda>(c, d, select). feat_error env c d select)
                  (zip (featureList st) (zip (desiredFeatureList st) (featureSelectionList st)))))),
               errorComputed := True \<rparr>)"
proof -
  let ?S = "concat (map (feat_get_s env) (featureList st))"
  let ?SS = "concat (map (feat_get_s env) (take (length (featureList st)) (desiredFeatureList st)))"
  let ?E = "concat (map (\<lambda>(c, d, select). feat_error env c d select)
                  (zip (featureList st) (zip (desiredFeatureList st) (featureSelectionList st))))"
  from assms have ne: "desiredFeatureList st \<noteq> []" by auto
  from computeError_loop_holds [OF assms(2,3) start_vec_holds start_vec_holds start_vec_holds,
        of env "\<lambda>i. fresh env buf_s i 0" "s st" "\<lambda>i. fresh env buf_sStar i 0" "sStar st"
           "\<lambda>i. fresh env buf_error i 0" "error st"]
  obtain bS bSS bE where
    l: "computeError_loop env (featureList st) (desiredFeatureList st) (featureSelectionList st)
          (start_vec (\<lambda>i. fresh env buf_s i 0) (s st))
          (start_vec (\<lambda>i. fresh env buf_sStar i 0) (sStar st))
          (start_vec (\<lambda>i. fresh env buf_error i 0) (error st)) = Some (Inr (bS, bSS, bE))"
    and h: "vec_holds bS ?S" "vec_holds bSS ?SS" "vec_holds bE ?E"
    by auto
  obtain d1 c1 v1 where b1: "bS = (d1, c1, v1)" by (cases bS) auto
  obtain d2 c2 v2 where b2: "bSS = (d2, c2, v2)" by (cases bSS) auto
  obtain d3 c3 v3 where b3: "bE = (d3, c3, v3)" by (cases bE) auto
  from h b1 b2 b3 have r: "resize_vec (\<lambda>i. fresh env buf_s i 0) c1 v1 = ?S"
    "resize_vec (\<lambda>i. fresh env buf_sStar i 0) c2 v2 = ?SS"
    "resize_vec (\<lambda>i. fresh env buf_error i 0) c3 v3 = ?E"
    by (simp_all add: vec_holds_final)
  show ?thesis
    using assms(1) ne l b1 b2 b3 r by (simp add: computeError_def Let_def)
qed

lemma computeInteractionMatrixFromList_empty:
  "computeInteractionMatrixFromList env fr [] sels M = Some (Inl noFeatureError)"
  by (simp add: computeInteractionMatrixFromList_def)

subsection \<open>The task dimension\<close>

lemma int32_add_left: "int32 (int32 a + b) = int32 (a + b)"
proof -
  have "take_bit (Suc 31) (signed_take_bit 31 a + b) = take_bit (Suc 31) (a + b)"
    by (metis take_bit_add take_bit_signed_take_bit le_refl)
  then show ?thesis
    by (simp add: int32_def signed_take_bit_eq_iff_take_bit_eq)
qed

lemma getDimension_loop_sum:
  "length cs \<le> length sels \<Longrightarrow>
   getDimension_loop env cs sels (int32 d) =
     Inr (int32 (d + sum_list (map (\<lambda>(c, select). feat_getDimension env c select) (zip cs sels))))"
proof (induction cs arbitrary: sels d)
  case Nil
  then show ?case by simp
next
  case (Cons c cs)
  then obtain select rest where s: "sels = select # rest" by (cases sels) auto
  with Cons.prems have "length cs \<le> length rest" by simp
  from Cons.IH [OF this, of "d + feat_getDimension env c select"] s
  show ?case by (simp add: int32_add_left add.assoc)
qed

subsection \<open>What a call changes\<close>

lemma computeInteractionMatrixFromList_cols:
  "computeInteractionMatrixFromList env fr fl sels M = Some (Inr R) \<Longrightarrow> colNum R = 6"
  by (auto simp: computeInteractionMatrixFromList_def Let_def resize_mat_def
           split: if_splits option.splits sum.splits)

lemma mat_add_cols: "mat_add A B = Inr S \<Longrightarrow> colNum S = colNum A"
  by (auto simp: mat_add_def split: if_splits)

lemma computeInteractionMatrix_success:
  assumes "computeInteractionMatrix env st = Some (Inr M, st1)"
  shows "st1 = st\<lparr> L := M, dim_task := int (getRows M), interactionMatrixComputed := True \<rparr> \<and>
         colNum M = 6"
proof (cases "interactionMatrixType st")
  case CURRENT
  with assms show ?thesis
    by (auto simp: computeInteractionMatrix_def Let_def computeInteractionMatrixFromList_cols
             split: option.splits sum.splits)
next
  case DESIRED
  with assms show ?thesis
    by (auto simp: computeInteractionMatrix_def Let_def computeInteractionMatrixFromList_cols
             split: option.splits sum.splits)
next
  case MEAN
  with assms show ?thesis
    by (auto simp: computeInteractionMatrix_def Let_def mat_div_def
             dest!: computeInteractionMatrixFromList_cols mat_add_cols
             split: option.splits sum.splits)
qed

lemma computeInteractionMatrix_failure:
  assumes "computeInteractionMatrix env st = Some (Inl ex, st1)"
  shows "st1 = st \<or> (\<exists>M. st1 = st\<lparr> L := M \<rparr>)"
  using assms
  by (cases "interactionMatrixType st")
     (auto simp: computeInteractionMatrix_def Let_def split: option.splits sum.splits)

lemma computeError_result:
  assumes "computeError env st = Some (r, st1)"
  shows "(st1 = st \<and> (\<exists>ex. r = Inl ex)) \<or>
         (\<exists>a b c. r = Inr c \<and> st1 = st\<lparr> s := a, sStar := b, error := c,
                                        dim_task := int (length c), errorComputed := True \<rparr>)"
  using assms
  by (auto simp: computeError_def Let_def split: if_splits option.splits sum.splits)

lemma controlLaw_switch_result:
  assumes "controlLaw_switch st = Inr (cVa, aJe, st1)"
  shows "servoType st \<noteq> NONE \<and>
         st1 = (case servoType st of
                  EYETOHAND_L_cVf_fVe_eJe \<Rightarrow> st\<lparr> init_fVe := False, init_eJe := False \<rparr>
                | EYETOHAND_L_cVf_fJe \<Rightarrow> st\<lparr> init_fJe := False \<rparr>
                | _ \<Rightarrow> st\<lparr> init_cVe := False, init_eJe := False \<rparr>)"
  using assms
  by (cases "servoType st") (auto simp: controlLaw_switch_def)

lemma controlLaw_task_keeps:
  assumes "controlLaw_task env cVa aJe st = (r, st1)"
  shows "L st1 = L st \<and> error st1 = error st \<and> dim_task st1 = dim_task st \<and>
         inversionType st1 = inversionType st \<and> servoType st1 = servoType st \<and>
         init_cVe st1 = init_cVe st \<and> init_cVf st1 = init_cVf st \<and> init_fVe st1 = init_fVe st \<and>
         init_eJe st1 = init_eJe st \<and> init_fJe st1 = init_fJe st \<and> lambda st1 = lambda st"
  using assms
  by (auto simp: controlLaw_task_def controlLaw_inverse_def controlLaw_e1_def Let_def
           split: sum.splits if_splits option.splits prod.splits)

lemma controlLaw_task_projector:
  assumes "controlLaw_task env cVa aJe st = (Inr ev, st1)"
    "rankJ1 st1 \<noteq> int (getCols (L st))"
  shows "\<exists>r. pseudoInverse env (J1 st1) = Inr r \<and> rankJ1 st1 = pinv_rank r \<and>
             mat_mult (pinv_imAt r) (transpose_mat (pinv_imAt r)) = Inr (WpW st1)"
  using assms
  by (auto simp: controlLaw_task_def controlLaw_inverse_def controlLaw_e1_def Let_def
           split: sum.splits if_splits option.splits prod.splits)

lemma controlLaw_task_transpose:
  assumes "controlLaw_task env cVa aJe st = (Inr ev, st1)" "inversionType st = TRANSPOSE"
  shows "J1p st1 = transpose_mat (J1 st1) \<and>
         ev = vec_scale (- lambda st1 (e1 st1)) (e1 st1) \<and> e st1 = ev \<and>
         (rankJ1 st = int (getCols (L st)) \<longrightarrow>
            mat_vec (J1p st1) (error st1) = Inr (e1 st1) \<and>
            rankJ1 st1 = rankJ1 st \<and> WpW st1 = WpW st) \<and>
         (rankJ1 st \<noteq> int (getCols (L st)) \<longrightarrow>
            (\<exists>r. pseudoInverse env (J1 st1) = Inr r \<and> rankJ1 st1 = pinv_rank r \<and>
                 mat_mult (pinv_imAt r) (transpose_mat (pinv_imAt r)) = Inr (WpW st1) \<and>
                 bindE (mat_mult (WpW st1) (J1p st1)) (\<lambda>M. mat_vec M (error st1)) = Inr (e1 st1)))"
  using assms
  by (auto simp: controlLaw_task_def controlLaw_inverse_def controlLaw_e1_def Let_def
           split: sum.splits if_splits option.splits prod.splits)

lemma computeControlLaw_success:
  assumes "computeControlLaw env iteration st = Some (Inr ev, it1, st4)"
  shows "\<exists>cVa aJe st1 M st2 v st3.
           controlLaw_tests iteration st = Inr () \<and>
           controlLaw_switch st = Inr (cVa, aJe, st1) \<and>
           computeInteractionMatrix env st1 = Some (Inr M, st2) \<and>
           computeError env st2 = Some (Inr v, st3) \<and>
           controlLaw_task env cVa aJe st3 = (Inr ev, st4) \<and> it1 = iteration + 1"
  using assms
  by (auto simp: computeControlLaw_def split: sum.splits option.splits prod.splits)

lemma computeControlLaw_reaches_task:
  assumes "computeControlLaw env iteration st = Some (Inr ev, it1, st4)"
  shows "\<exists>cVa aJe st3.
           controlLaw_tests iteration st = Inr () \<and>
           controlLaw_task env cVa aJe st3 = (Inr ev, st4) \<and> it1 = iteration + 1 \<and>
           colNum (L st3) = 6 \<and> rankJ1 st3 = rankJ1 st \<and> WpW st3 = WpW st \<and>
           inversionType st3 = inversionType st \<and> servoType st \<noteq> NONE \<and>
           init_cVf st3 = init_cVf st \<and>
           init_cVe st3 = (if servoType st = EYETOHAND_L_cVf_fVe_eJe \<or> servoType st = EYETOHAND_L_cVf_fJe
                           then init_cVe st else False) \<and>
           init_eJe st3 = (if servoType st = EYETOHAND_L_cVf_fJe then init_eJe st else False) \<and>
           init_fVe st3 = (if servoType st = EYETOHAND_L_cVf_fVe_eJe then False else init_fVe st) \<and>
           init_fJe st3 = (if servoType st = EYETOHAND_L_cVf_fJe then False else init_fJe st)"
proof -
  from computeControlLaw_success [OF assms]
  obtain cVa aJe st1 M st2 v st3 where
    t: "controlLaw_tests iteration st = Inr ()"
    and sw: "controlLaw_switch st = Inr (cVa, aJe, st1)"
    and im: "computeInteractionMatrix env st1 = Some (Inr M, st2)"
    and er: "computeError env st2 = Some (Inr v, st3)"
    and ta: "controlLaw_task env cVa aJe st3 = (Inr ev, st4)" and it: "it1 = iteration + 1"
    by blast
  from controlLaw_switch_result [OF sw] have n: "servoType st \<noteq> NONE"
    and s1: "st1 = (case servoType st of
                  EYETOHAND_L_cVf_fVe_eJe \<Rightarrow> st\<lparr> init_fVe := False, init_eJe := False \<rparr>
                | EYETOHAND_L_cVf_fJe \<Rightarrow> st\<lparr> init_fJe := False \<rparr>
                | _ \<Rightarrow> st\<lparr> init_cVe := False, init_eJe := False \<rparr>)" by simp_all
  from computeInteractionMatrix_success [OF im]
  have s2: "st2 = st1\<lparr> L := M, dim_task := int (getRows M), interactionMatrixComputed := True \<rparr>"
    and c6: "colNum M = 6" by simp_all
  from computeError_result [OF er] obtain a b c where
    s3: "st3 = st2\<lparr> s := a, sStar := b, error := c, dim_task := int (length c), errorComputed := True \<rparr>"
    by auto
  have "colNum (L st3) = 6 \<and> rankJ1 st3 = rankJ1 st \<and> WpW st3 = WpW st \<and>
           inversionType st3 = inversionType st \<and>
           init_cVf st3 = init_cVf st \<and>
           init_cVe st3 = (if servoType st = EYETOHAND_L_cVf_fVe_eJe \<or> servoType st = EYETOHAND_L_cVf_fJe
                           then init_cVe st else False) \<and>
           init_eJe st3 = (if servoType st = EYETOHAND_L_cVf_fJe then init_eJe st else False) \<and>
           init_fVe st3 = (if servoType st = EYETOHAND_L_cVf_fVe_eJe then False else init_fVe st) \<and>
           init_fJe st3 = (if servoType st = EYETOHAND_L_cVf_fJe then False else init_fJe st)"
    using n c6 by (cases "servoType st") (simp_all add: s3 s2 s1)
  with t ta it n show ?thesis by blast
qed

lemma mat_sub_not_noDofFree: "mat_sub A B \<noteq> Inl noDofFree"
  by (simp add: mat_sub_def)

lemma mat_vec_not_noDofFree: "mat_vec A v \<noteq> Inl noDofFree"
  by (simp add: mat_vec_def)

lemma vec_add_not_noDofFree: "vec_add u v \<noteq> Inl noDofFree"
  by (simp add: vec_add_def)

lemma secondaryTask_result:
  "fst (secondaryTask de2dt st) =
     (if rankJ1 st = int (getCols (L st)) then Inl noDofFree
      else bindE (mat_sub (identity_mat (getCols (J1 st))) (WpW st)) (\<lambda>P. mat_vec P de2dt))"
  by (simp add: secondaryTask_def bindE_def Let_def split: sum.splits)

lemma secondaryTask_e2_result:
  "fst (secondaryTask_e2 e2 de2dt st) =
     (if rankJ1 st = int (getCols (L st)) then Inl noDofFree
      else bindE (mat_sub (identity_mat (getCols (J1 st))) (WpW st))
             (\<lambda>P. bindE (mat_vec (mat_scale (- lambda st e2) P) e2)
                     (\<lambda>a. bindE (mat_vec P de2dt) (\<lambda>b. vec_add a b))))"
  by (simp add: secondaryTask_e2_def bindE_def Let_def split: sum.splits)

lemma controlLaw_tests_cases:
  "controlLaw_tests iteration st =
     (if servoType st = NONE then Inl servoError
      else if iteration = 0 \<and> testInitialization st = Inr False then Inl servoError
      else Inr ())"
  by (cases "servoType st")
     (auto simp: controlLaw_tests_def testInitialization_def testUpdated_def)

subsection \<open>The flags and the outcome of a cycle\<close>

lemma computeInteractionMatrix_with_flags:
  "computeInteractionMatrix env (with_flags a b c d f st) =
     map_option (map_prod id (with_flags a b c d f)) (computeInteractionMatrix env st)"
  by (cases "interactionMatrixType st")
     (simp_all add: computeInteractionMatrix_def with_flags_def Let_def
                split: option.splits sum.splits)

lemma computeError_with_flags:
  "computeError env (with_flags a b c d f st) =
     map_option (map_prod id (with_flags a b c d f)) (computeError env st)"
  by (simp add: computeError_def with_flags_def Let_def split: option.splits sum.splits prod.splits)

lemma controlLaw_inverse_with_flags:
  "controlLaw_inverse env (with_flags a b c d f st) =
     map_sum id (map_prod (with_flags a b c d f) id) (controlLaw_inverse env st)"
proof (cases "inversionType st = PSEUDO_INVERSE")
  case True
  then show ?thesis
    by (cases "pseudoInverse env (J1 st)")
       (simp_all add: controlLaw_inverse_def with_flags_def)
next
  case False
  then show ?thesis by (simp add: controlLaw_inverse_def with_flags_def)
qed

lemma controlLaw_e1_projected:
  "controlLaw_e1 env (Some (imJ1, imJ1t)) (with_flags a b c d f st) =
     map_prod id (with_flags a b c d f) (controlLaw_e1 env (Some (imJ1, imJ1t)) st)"
proof (cases "rankJ1 st = int (getCols (L st))")
  case True
  then show ?thesis
    by (cases "mat_vec (J1p st) (error st)") (simp_all add: controlLaw_e1_def with_flags_def)
next
  case False
  show ?thesis
  proof (cases "mat_mult imJ1t (transpose_mat imJ1t)")
    case (Inl ex)
    with False show ?thesis by (simp add: controlLaw_e1_def with_flags_def)
  next
    case (Inr W)
    with False show ?thesis
      by (cases "bindE (mat_mult W (J1p st)) (\<lambda>M. mat_vec M (error st))")
         (simp_all add: controlLaw_e1_def with_flags_def Let_def)
  qed
qed

lemma controlLaw_e1_unprojected:
  "controlLaw_e1 env None (with_flags a b c d f st) =
     map_prod id (with_flags a b c d f) (controlLaw_e1 env None st)"
proof (cases "rankJ1 st = int (getCols (L st))")
  case True
  then show ?thesis
    by (cases "mat_vec (J1p st) (error st)") (simp_all add: controlLaw_e1_def with_flags_def)
next
  case False
  show ?thesis
  proof (cases "pseudoInverse env (J1 st)")
    case (Inl ex)
    with False show ?thesis by (simp add: controlLaw_e1_def with_flags_def)
  next
    case (Inr r)
    show ?thesis
    proof (cases "mat_mult (pinv_imAt r) (transpose_mat (pinv_imAt r))")
      case (Inl ex)
      with False Inr show ?thesis by (simp add: controlLaw_e1_def with_flags_def)
    next
      case W: (Inr W)
      with False Inr show ?thesis
        by (cases "bindE (mat_mult W (J1p st)) (\<lambda>M. mat_vec M (error st))")
           (simp_all add: controlLaw_e1_def with_flags_def Let_def)
    qed
  qed
qed

lemma controlLaw_e1_with_flags:
  "controlLaw_e1 env img (with_flags a b c d f st) =
     map_prod id (with_flags a b c d f) (controlLaw_e1 env img st)"
proof (cases img)
  case None
  then show ?thesis by (simp add: controlLaw_e1_unprojected)
next
  case (Some im)
  then show ?thesis by (cases im) (simp add: controlLaw_e1_projected)
qed

lemma with_flags_J1:
  "(with_flags a b c d f st)\<lparr> J1 := X \<rparr> = with_flags a b c d f (st\<lparr> J1 := X \<rparr>)"
  by (simp add: with_flags_def)

lemma with_flags_e:
  "(with_flags a b c d f st)\<lparr> e := X \<rparr> = with_flags a b c d f (st\<lparr> e := X \<rparr>)"
  by (simp add: with_flags_def)

lemma with_flags_fields:
  "L (with_flags a b c d f st) = L st"
  "signInteractionMatrix (with_flags a b c d f st) = signInteractionMatrix st"
  "lambda (with_flags a b c d f st) = lambda st"
  by (simp_all add: with_flags_def)

lemma controlLaw_task_with_flags:
  "controlLaw_task env cVa aJe (with_flags a b c d f st) =
     map_prod id (with_flags a b c d f) (controlLaw_task env cVa aJe st)"
proof (cases "bindE (mat_mult (L st) cVa) (\<lambda>M. mat_mult M aJe)")
  case (Inl ex)
  then show ?thesis by (simp add: controlLaw_task_def with_flags_fields)
next
  case (Inr J)
  let ?st1 = "st\<lparr> J1 := mat_scale (of_int (signInteractionMatrix st)) J \<rparr>"
  show ?thesis
  proof (cases "controlLaw_inverse env ?st1")
    case (Inl ex)
    with Inr show ?thesis
      by (simp add: controlLaw_task_def with_flags_fields with_flags_J1
            controlLaw_inverse_with_flags Let_def)
  next
    case inv: (Inr x)
    obtain st2 img where x: "x = (st2, img)" by (cases x) auto
    obtain r3 st3 where e: "controlLaw_e1 env img st2 = (r3, st3)"
      by (cases "controlLaw_e1 env img st2") auto
    from Inr inv x e show ?thesis
      by (cases r3)
         (simp_all add: controlLaw_task_def with_flags_fields with_flags_J1 with_flags_e
            controlLaw_inverse_with_flags controlLaw_e1_with_flags Let_def)
  qed
qed


lemma computeControlLaw_outcome_with_flags:
  assumes "controlLaw_tests it st = Inr ()" "controlLaw_tests it' st' = Inr ()"
    "controlLaw_switch st = Inr (cVa, aJe, st1)"
    "controlLaw_switch st' = Inr (cVa, aJe, with_flags a b c d f st1)"
  shows "map_option fst (computeControlLaw env it st) = map_option fst (computeControlLaw env it' st')"
proof (cases "computeInteractionMatrix env st1")
  case None
  with assms show ?thesis
    by (simp add: computeControlLaw_def computeInteractionMatrix_with_flags)
next
  case (Some x)
  obtain r st2 where x: "x = (r, st2)" by (cases x) auto
  show ?thesis
  proof (cases r)
    case (Inl ex)
    with assms Some x show ?thesis
      by (simp add: computeControlLaw_def computeInteractionMatrix_with_flags)
  next
    case (Inr M)
    show ?thesis
    proof (cases "computeError env st2")
      case None
      with assms Some x Inr show ?thesis
        by (simp add: computeControlLaw_def computeInteractionMatrix_with_flags
              computeError_with_flags)
    next
      case (Some y)
      obtain r2 st3 where y: "y = (r2, st3)" by (cases y) auto
      obtain r3 st4 where z: "controlLaw_task env cVa aJe st3 = (r3, st4)"
        by (cases "controlLaw_task env cVa aJe st3") auto
      from assms \<open>computeInteractionMatrix env st1 = Some x\<close> x Inr Some y z show ?thesis
        by (cases r2; cases r3)
           (simp_all add: computeControlLaw_def computeInteractionMatrix_with_flags
              computeError_with_flags controlLaw_task_with_flags)
    qed
  qed
qed

lemma computeControlLaw_nonzero_counter:
  assumes "iteration \<noteq> 0"
  shows "map_option fst (computeControlLaw env iteration st) =
         map_option fst (computeControlLaw env 0 (with_flags True True True True True st))"
proof (cases "servoType st")
  case NONE
  then show ?thesis
    by (simp add: computeControlLaw_def controlLaw_tests_cases with_flags_def)
next
  case EYEINHAND_CAMERA
  with assms show ?thesis
    by (intro computeControlLaw_outcome_with_flags
                [where cVa = "cVe st" and aJe = "eJe st"
                   and ?st1.0 = "st\<lparr> init_cVe := False, init_eJe := False \<rparr>"
                   and a = False and b = True and c = True and d = False and f = True])
       (simp_all add: controlLaw_tests_cases controlLaw_switch_def testInitialization_def
          with_flags_def)
next
  case EYEINHAND_L_cVe_eJe
  with assms show ?thesis
    by (intro computeControlLaw_outcome_with_flags
                [where cVa = "cVe st" and aJe = "eJe st"
                   and ?st1.0 = "st\<lparr> init_cVe := False, init_eJe := False \<rparr>"
                   and a = False and b = True and c = True and d = False and f = True])
       (simp_all add: controlLaw_tests_cases controlLaw_switch_def testInitialization_def
          with_flags_def)
next
  case EYETOHAND_L_cVe_eJe
  with assms show ?thesis
    by (intro computeControlLaw_outcome_with_flags
                [where cVa = "cVe st" and aJe = "eJe st"
                   and ?st1.0 = "st\<lparr> init_cVe := False, init_eJe := False \<rparr>"
                   and a = False and b = True and c = True and d = False and f = True])
       (simp_all add: controlLaw_tests_cases controlLaw_switch_def testInitialization_def
          with_flags_def)
next
  case EYETOHAND_L_cVf_fVe_eJe
  with assms show ?thesis
    by (intro computeControlLaw_outcome_with_flags
                [where cVa = "twist_mult (cVf st) (fVe st)" and aJe = "eJe st"
                   and ?st1.0 = "st\<lparr> init_fVe := False, init_eJe := False \<rparr>"
                   and a = True and b = True and c = False and d = False and f = True])
       (simp_all add: controlLaw_tests_cases controlLaw_switch_def testInitialization_def
          with_flags_def)
next
  case EYETOHAND_L_cVf_fJe
  with assms show ?thesis
    by (intro computeControlLaw_outcome_with_flags
                [where cVa = "cVf st" and aJe = "fJe st"
                   and ?st1.0 = "st\<lparr> init_fJe := False \<rparr>"
                   and a = True and b = True and c = True and d = True and f = False])
       (simp_all add: controlLaw_tests_cases controlLaw_switch_def testInitialization_def
          with_flags_def)
qed

section \<open>The claims\<close>

text \<open>
  C1, as stated, fails. In the transpose mode the pseudo-inverse is the transpose, but
  the test \<^verbatim>\<open>rankJ1 == L.getCols()\<close> still decides, on the rank that the task holds
  from before the call. The example task has run one cycle in the pseudo-inverse mode,
  which left the rank 1; the caller then chooses the transpose. The second cycle returns,
  and its \<open>e1\<close> is \<open>(1, 0, 0, 0, 0, 0)\<close>, while \<open>J1p * error\<close> is
  \<open>(1, 2\<^sup>-\<^sup>2\<^sup>4, 0, 0, 0, 0)\<close>: the projector was applied.
\<close>

theorem transpose_mode_counterexample:
  "inversionType (setInteractionMatrixType DESIRED TRANSPOSE example_task1) = TRANSPOSE \<and>
   map_option fst (computeControlLaw example_env 1
                     (setInteractionMatrixType DESIRED TRANSPOSE example_task1)) =
     Some (Inr [- 1, 0, 0, 0, 0, 0]) \<and>
   J1p example_task2 = transpose_mat (J1 example_task2) \<and>
   mat_vec (J1p example_task2) (error example_task2) = Inr [1, 1 / 16777216, 0, 0, 0, 0] \<and>
   e1 example_task2 = [1, 0, 0, 0, 0, 0]"
  by code_simp

text \<open>
  C1, amended. When a cycle in the transpose mode returns, \<open>J1p\<close> is the transpose of
  \<open>J1\<close> and the result is \<open>- lambda(e1) * e1\<close>. If the rank held before the call is
  6 then \<open>e1 = J1p * error\<close>, and the rank and \<open>WpW\<close> stay as they were. Otherwise
  \<^verbatim>\<open>pseudoInverse\<close> is called on \<open>J1\<close> for the rank and the images,
  \<open>WpW = imJ1t * imJ1t\<^sup>t\<close> and \<open>e1 = WpW * J1p * error\<close>.
\<close>

theorem transpose_mode_primary_task:
  assumes "computeControlLaw env iteration st = Some (Inr ev, it1, st1)"
    "inversionType st = TRANSPOSE"
  shows "J1p st1 = transpose_mat (J1 st1) \<and>
         ev = vec_scale (- lambda st1 (e1 st1)) (e1 st1) \<and>
         (rankJ1 st = 6 \<longrightarrow>
            mat_vec (J1p st1) (error st1) = Inr (e1 st1) \<and> rankJ1 st1 = 6 \<and> WpW st1 = WpW st) \<and>
         (rankJ1 st \<noteq> 6 \<longrightarrow>
            (\<exists>r. pseudoInverse env (J1 st1) = Inr r \<and> rankJ1 st1 = pinv_rank r \<and>
                 mat_mult (pinv_imAt r) (transpose_mat (pinv_imAt r)) = Inr (WpW st1) \<and>
                 bindE (mat_mult (WpW st1) (J1p st1)) (\<lambda>M. mat_vec M (error st1)) = Inr (e1 st1)))"
proof -
  from computeControlLaw_reaches_task [OF assms(1)] obtain cVa aJe st3 where
    ta: "controlLaw_task env cVa aJe st3 = (Inr ev, st1)"
    and k: "colNum (L st3) = 6" "rankJ1 st3 = rankJ1 st" "WpW st3 = WpW st"
      "inversionType st3 = inversionType st" by blast
  from assms(2) k have "inversionType st3 = TRANSPOSE" by simp
  from controlLaw_task_transpose [OF ta this] k show ?thesis
    by (auto simp: getCols_def)
qed

theorem transpose_mode_primary_task_witness:
  "rankJ1 (setInteractionMatrixType DESIRED TRANSPOSE example_task1) = 1 \<and>
   J1p example_task2 = transpose_mat (J1 example_task2) \<and>
   (\<exists>r. pseudoInverse example_env (J1 example_task2) = Inr r \<and>
        rankJ1 example_task2 = pinv_rank r \<and>
        mat_mult (pinv_imAt r) (transpose_mat (pinv_imAt r)) = Inr (WpW example_task2) \<and>
        bindE (mat_mult (WpW example_task2) (J1p example_task2))
              (\<lambda>M. mat_vec M (error example_task2)) = Inr (e1 example_task2))"
proof -
  have "map_option fst (computeControlLaw example_env 1
                          (setInteractionMatrixType DESIRED TRANSPOSE example_task1)) =
          Some (Inr [- 1, 0, 0, 0, 0, 0])"
    by code_simp
  then obtain it1 st1 where c: "computeControlLaw example_env 1
                          (setInteractionMatrixType DESIRED TRANSPOSE example_task1) =
          Some (Inr [- 1, 0, 0, 0, 0, 0], it1, st1)"
    by (cases "computeControlLaw example_env 1
                 (setInteractionMatrixType DESIRED TRANSPOSE example_task1)") auto
  then have s: "st1 = example_task2" by (simp add: example_task2_def)
  have r: "rankJ1 (setInteractionMatrixType DESIRED TRANSPOSE example_task1) = 1"
    by code_simp
  have t: "inversionType (setInteractionMatrixType DESIRED TRANSPOSE example_task1) = TRANSPOSE"
    by (simp add: setInteractionMatrixType_def)
  from transpose_mode_primary_task [OF c t] r s show ?thesis by auto
qed

text \<open>
  C2, as stated, fails. The eye-to-hand example task uses \<open>cVf\<close> as \<open>cVa\<close>; its
  cycle returns and the flag of \<open>cVf\<close> is still set.
\<close>

theorem cVf_flag_counterexample:
  "servoType example_task_cVf_fJe = EYETOHAND_L_cVf_fJe \<and>
   init_cVf example_task_cVf_fJe = True \<and>
   map_sum id fst (controlLaw_switch example_task_cVf_fJe) = Inr (cVf example_task_cVf_fJe) \<and>
   map_option fst (computeControlLaw example_env 0 example_task_cVf_fJe) =
     Some (Inr [1, 0, 0, 0, 0, 0]) \<and>
   init_cVf (snd (snd (the (computeControlLaw example_env 0 example_task_cVf_fJe)))) = True"
  by code_simp

text \<open>
  C2, amended. When a cycle returns, the flags of the inputs used for \<open>cVa\<close> and
  \<open>aJe\<close> are reset, except the flag of \<open>cVf\<close>, which the cycle leaves as it was:
  \<open>init_cVe\<close> and \<open>init_eJe\<close> for the three servo types that use \<open>cVe\<close> and
  \<open>eJe\<close>, \<open>init_fVe\<close> and \<open>init_eJe\<close> for the type that uses \<open>cVf\<close>, \<open>fVe\<close>
  and \<open>eJe\<close>, \<open>init_fJe\<close> for the type that uses \<open>cVf\<close> and \<open>fJe\<close>.
\<close>

theorem consumed_flags_cleared_except_cVf:
  assumes "computeControlLaw env iteration st = Some (Inr ev, it1, st1)"
  shows "servoType st \<noteq> NONE \<and> init_cVf st1 = init_cVf st \<and>
         (servoType st = EYEINHAND_CAMERA \<or> servoType st = EYEINHAND_L_cVe_eJe \<or>
          servoType st = EYETOHAND_L_cVe_eJe \<longrightarrow> \<not> init_cVe st1 \<and> \<not> init_eJe st1) \<and>
         (servoType st = EYETOHAND_L_cVf_fVe_eJe \<longrightarrow> \<not> init_fVe st1 \<and> \<not> init_eJe st1) \<and>
         (servoType st = EYETOHAND_L_cVf_fJe \<longrightarrow> \<not> init_fJe st1)"
proof -
  from computeControlLaw_reaches_task [OF assms(1)] obtain cVa aJe st3 where
    ta: "controlLaw_task env cVa aJe st3 = (Inr ev, st1)"
    and k: "servoType st \<noteq> NONE" "init_cVf st3 = init_cVf st"
     "init_cVe st3 = (if servoType st = EYETOHAND_L_cVf_fVe_eJe \<or> servoType st = EYETOHAND_L_cVf_fJe
                           then init_cVe st else False)"
     "init_eJe st3 = (if servoType st = EYETOHAND_L_cVf_fJe then init_eJe st else False)"
     "init_fVe st3 = (if servoType st = EYETOHAND_L_cVf_fVe_eJe then False else init_fVe st)"
     "init_fJe st3 = (if servoType st = EYETOHAND_L_cVf_fJe then False else init_fJe st)"
    by blast
  from controlLaw_task_keeps [OF ta] k show ?thesis by auto
qed

theorem consumed_flags_cleared_except_cVf_witness:
  "init_cVe example_task = True \<and> init_eJe example_task = True \<and>
   servoType example_task = EYEINHAND_CAMERA \<and>
   \<not> init_cVe example_task1 \<and> \<not> init_eJe example_task1 \<and>
   init_cVf example_task1 = init_cVf example_task \<and>
   init_fJe example_task_cVf_fJe = True \<and>
   \<not> init_fJe (snd (snd (the (computeControlLaw example_env 0 example_task_cVf_fJe))))"
proof -
  have "map_option fst (computeControlLaw example_env 0 example_task_cVf_fJe) =
          Some (Inr [1, 0, 0, 0, 0, 0])"
    by code_simp
  then obtain it2 st2 where c2: "computeControlLaw example_env 0 example_task_cVf_fJe =
          Some (Inr [1, 0, 0, 0, 0, 0], it2, st2)"
    by (cases "computeControlLaw example_env 0 example_task_cVf_fJe") auto
  have t2: "servoType example_task_cVf_fJe = EYETOHAND_L_cVf_fJe"
    "init_fJe example_task_cVf_fJe = True"
    by (simp_all add: example_task_cVf_fJe_def example_task_def)
  from consumed_flags_cleared_except_cVf [OF c2] t2 c2
  have f2: "init_fJe example_task_cVf_fJe = True \<and>
    \<not> init_fJe (snd (snd (the (computeControlLaw example_env 0 example_task_cVf_fJe))))"
    by simp
  have "map_option fst (computeControlLaw example_env 0 example_task) =
          Some (Inr [- 1, 0, 0, 0, 0, 0])"
    by code_simp
  then obtain it1 st1 where c: "computeControlLaw example_env 0 example_task =
          Some (Inr [- 1, 0, 0, 0, 0, 0], it1, st1)"
    by (cases "computeControlLaw example_env 0 example_task") auto
  then have s: "st1 = example_task1" by (simp add: example_task1_def)
  have t: "servoType example_task = EYEINHAND_CAMERA" "init_cVe example_task = True"
    "init_eJe example_task = True"
    by (simp_all add: example_task_def)
  from consumed_flags_cleared_except_cVf [OF c] t s f2 show ?thesis by simp
qed

text \<open>
  C3, as stated, fails. The counter is a static local of the function: the first task
  runs a cycle, which leaves the counter at 1; the first cycle of a second task, for
  which \<^verbatim>\<open>testInitialization()\<close> is false, then returns a result and throws nothing.
\<close>

theorem second_task_counterexample:
  "map_option fst (computeControlLaw example_env 0 example_task) =
     Some (Inr [- 1, 0, 0, 0, 0, 0]) \<and>
   fst (snd (the (computeControlLaw example_env 0 example_task))) = 1 \<and>
   testInitialization example_task_cVe_missing = Inr False \<and>
   map_option fst (computeControlLaw example_env 1 example_task_cVe_missing) =
     Some (Inr [- 1, 0, 0, 0, 0, 0])"
  by code_simp

text \<open>
  C3, amended. The counter belongs to the function and is shared by all tasks; a call
  that returns increases it by one and a call that throws leaves it. While the counter
  is 0 a call for which \<^verbatim>\<open>testInitialization()\<close> does not answer true throws
  \<open>servoError\<close> and changes nothing. On a call with any other counter
  \<^verbatim>\<open>testInitialization()\<close> is not consulted: the outcome of the call, its result or its
  exception, is the outcome at counter 0 for the same task with all five flags of the
  kinematic inputs set, whatever the flags of the task are.
\<close>

theorem iteration_counter_is_static:
  "(iteration = 0 \<and> testInitialization st \<noteq> Inr True \<longrightarrow>
      computeControlLaw env iteration st = Some (Inl servoError, iteration, st)) \<and>
   (iteration \<noteq> 0 \<longrightarrow>
      map_option fst (computeControlLaw env iteration st) =
      map_option fst (computeControlLaw env 0 (with_flags True True True True True st))) \<and>
   (computeControlLaw env iteration st = Some (r, it1, st1) \<longrightarrow>
      it1 = (case r of Inl ex \<Rightarrow> iteration | Inr ev \<Rightarrow> iteration + 1))"
proof -
  have a: "iteration = 0 \<and> testInitialization st \<noteq> Inr True \<longrightarrow>
      computeControlLaw env iteration st = Some (Inl servoError, iteration, st)"
    by (cases "servoType st")
       (auto simp: computeControlLaw_def controlLaw_tests_def testInitialization_def)
  have b: "iteration \<noteq> 0 \<longrightarrow>
      map_option fst (computeControlLaw env iteration st) =
      map_option fst (computeControlLaw env 0 (with_flags True True True True True st))"
    by (simp add: computeControlLaw_nonzero_counter)
  have c: "computeControlLaw env iteration st = Some (r, it1, st1) \<longrightarrow>
      it1 = (case r of Inl ex \<Rightarrow> iteration | Inr ev \<Rightarrow> iteration + 1)"
    by (auto simp: computeControlLaw_def split: sum.splits option.splits prod.splits)
  from a b c show ?thesis by blast
qed

text \<open>
  The task whose \<open>cVe\<close> was never supplied: at counter 0 its call throws, at counter 1
  it returns what the fully initialised task returns at counter 0, and the counter
  becomes 2.
\<close>

theorem iteration_counter_is_static_witness:
  "computeControlLaw example_env 0 example_task_cVe_missing =
     Some (Inl servoError, 0, example_task_cVe_missing) \<and>
   map_option fst (computeControlLaw example_env 1 example_task_cVe_missing) =
     Some (Inr [- 1, 0, 0, 0, 0, 0]) \<and>
   map_option fst (computeControlLaw example_env 0
                     (with_flags True True True True True example_task_cVe_missing)) =
     Some (Inr [- 1, 0, 0, 0, 0, 0]) \<and>
   fst (snd (the (computeControlLaw example_env 1 example_task_cVe_missing))) = 2"
proof -
  have a: "testInitialization example_task_cVe_missing \<noteq> Inr True"
    by (simp add: testInitialization_def example_task_cVe_missing_def example_task_def)
  have m: "map_option fst (computeControlLaw example_env 1 example_task_cVe_missing) =
          Some (Inr [- 1, 0, 0, 0, 0, 0])"
    by code_simp
  then obtain it1 st1 where c: "computeControlLaw example_env 1 example_task_cVe_missing =
          Some (Inr [- 1, 0, 0, 0, 0, 0], it1, st1)"
    by (cases "computeControlLaw example_env 1 example_task_cVe_missing") auto
  from iteration_counter_is_static
         [of 0 example_task_cVe_missing example_env "Inl servoError" 0 example_task_cVe_missing]
       iteration_counter_is_static
         [of 1 example_task_cVe_missing example_env "Inr [- 1, 0, 0, 0, 0, 0]" it1 st1]
       a c m
  show ?thesis by simp
qed



text \<open>
  C5. After a cycle that returned, \<open>L\<close> has six columns, and each of the two
  \<^verbatim>\<open>secondaryTask\<close> functions throws \<open>noDofFree\<close> if and only if the stored rank is 6.
  When the rank is not 6, \<open>WpW\<close> is the product \<open>imJ1t * imJ1t\<^sup>t\<close> that this cycle
  computed from the image of the transpose of its \<open>J1\<close>, and the functions return
  \<open>(I - WpW) * de2dt\<close> and \<open>(- lambda(e2) * (I - WpW)) * e2 + (I - WpW) * de2dt\<close>, as the
  matrix library computes them (it throws when the sizes of the operands do not fit).
\<close>

theorem secondaryTask_after_controlLaw:
  assumes "computeControlLaw env iteration st = Some (Inr ev, it1, st1)"
  shows "getCols (L st1) = 6 \<and>
         (fst (secondaryTask de2dt st1) = Inl noDofFree \<longleftrightarrow> rankJ1 st1 = 6) \<and>
         (fst (secondaryTask_e2 e2 de2dt st1) = Inl noDofFree \<longleftrightarrow> rankJ1 st1 = 6) \<and>
         (rankJ1 st1 \<noteq> 6 \<longrightarrow>
            (\<exists>r. pseudoInverse env (J1 st1) = Inr r \<and> rankJ1 st1 = pinv_rank r \<and>
                 mat_mult (pinv_imAt r) (transpose_mat (pinv_imAt r)) = Inr (WpW st1)) \<and>
            fst (secondaryTask de2dt st1) =
              bindE (mat_sub (identity_mat (getCols (J1 st1))) (WpW st1)) (\<lambda>P. mat_vec P de2dt) \<and>
            fst (secondaryTask_e2 e2 de2dt st1) =
              bindE (mat_sub (identity_mat (getCols (J1 st1))) (WpW st1))
                (\<lambda>P. bindE (mat_vec (mat_scale (- lambda st1 e2) P) e2)
                        (\<lambda>a. bindE (mat_vec P de2dt) (\<lambda>b. vec_add a b))))"
proof -
  from computeControlLaw_reaches_task [OF assms(1)] obtain cVa aJe st3 where
    ta: "controlLaw_task env cVa aJe st3 = (Inr ev, st1)"
    and k: "colNum (L st3) = 6" by blast
  from controlLaw_task_keeps [OF ta] k have c: "getCols (L st1) = 6" "getCols (L st3) = 6"
    by (simp_all add: getCols_def)
  have p: "rankJ1 st1 \<noteq> 6 \<longrightarrow>
            (\<exists>r. pseudoInverse env (J1 st1) = Inr r \<and> rankJ1 st1 = pinv_rank r \<and>
                 mat_mult (pinv_imAt r) (transpose_mat (pinv_imAt r)) = Inr (WpW st1))"
    using controlLaw_task_projector [OF ta] c by simp
  have a: "fst (secondaryTask de2dt st1) = Inl noDofFree \<longleftrightarrow> rankJ1 st1 = 6"
    using c by (auto simp: secondaryTask_result bindE_def mat_sub_not_noDofFree mat_vec_not_noDofFree
                     split: sum.splits)
  have b: "fst (secondaryTask_e2 e2 de2dt st1) = Inl noDofFree \<longleftrightarrow> rankJ1 st1 = 6"
    using c by (auto simp: secondaryTask_e2_result bindE_def mat_sub_not_noDofFree
                       mat_vec_not_noDofFree vec_add_not_noDofFree split: sum.splits)
  from a b c p show ?thesis
    by (simp add: secondaryTask_result secondaryTask_e2_result)
qed

text \<open>
  After the first cycle of the example task the rank is 1 and \<open>I - WpW\<close> removes the
  first component.
\<close>

theorem secondaryTask_after_controlLaw_witness:
  "rankJ1 example_task1 = 1 \<and> getCols (L example_task1) = 6 \<and>
   fst (secondaryTask [1, 1, 1, 1, 1, 1] example_task1) \<noteq> Inl noDofFree \<and>
   fst (secondaryTask_e2 [2, 2, 2, 2, 2, 2] [1, 1, 1, 1, 1, 1] example_task1) \<noteq> Inl noDofFree \<and>
   fst (secondaryTask [1, 1, 1, 1, 1, 1] example_task1) = Inr [0, 1, 1, 1, 1, 1] \<and>
   fst (secondaryTask_e2 [2, 2, 2, 2, 2, 2] [1, 1, 1, 1, 1, 1] example_task1) =
     Inr [0, - 1, - 1, - 1, - 1, - 1]"
proof -
  have "map_option fst (computeControlLaw example_env 0 example_task) =
          Some (Inr [- 1, 0, 0, 0, 0, 0])"
    by code_simp
  then obtain it1 st1 where c: "computeControlLaw example_env 0 example_task =
          Some (Inr [- 1, 0, 0, 0, 0, 0], it1, st1)"
    by (cases "computeControlLaw example_env 0 example_task") auto
  then have s: "st1 = example_task1" by (simp add: example_task1_def)
  have r: "rankJ1 example_task1 = 1" by code_simp
  have v: "fst (secondaryTask [1, 1, 1, 1, 1, 1] example_task1) = Inr [0, 1, 1, 1, 1, 1]"
    "fst (secondaryTask_e2 [2, 2, 2, 2, 2, 2] [1, 1, 1, 1, 1, 1] example_task1) =
       Inr [0, - 1, - 1, - 1, - 1, - 1]"
    by code_simp+
  from secondaryTask_after_controlLaw [OF c, of "[1, 1, 1, 1, 1, 1]" "[2, 2, 2, 2, 2, 2]"] s
  have g: "getCols (L example_task1) = 6" by simp
  from g r v show ?thesis by simp
qed

text \<open>
  C6. Let the interaction matrix computed in CURRENT mode and the one computed in DESIRED
  mode, from the same task, have the same dimensions, and let the desired features keep
  the promise of six columns. Then \<^verbatim>\<open>computeInteractionMatrix()\<close> in MEAN mode returns
  their elementwise average and stores it in \<open>L\<close>.
\<close>

theorem mean_is_average:
  assumes cur: "computeInteractionMatrix env (st\<lparr> interactionMatrixType := CURRENT \<rparr>) = Some (Inr Mc, stc)"
    and des: "computeInteractionMatrix env (st\<lparr> interactionMatrixType := DESIRED \<rparr>) = Some (Inr Md, std)"
    and dims: "getRows Mc = getRows Md" "getCols Mc = getCols Md"
    and len: "length (desiredFeatureList st) \<le> length (featureSelectionList st)"
    and wf: "list_all (\<lambda>(c, select). wf_interaction env c select)
               (zip (desiredFeatureList st) (featureSelectionList st))"
    and buf: "getRows (L st) = 0 \<or> 6 \<le> colNum (L st)"
  shows "computeInteractionMatrix env (st\<lparr> interactionMatrixType := MEAN \<rparr>) =
           Some (Inr (spec_average Mc Md),
                 st\<lparr> interactionMatrixType := MEAN, L := spec_average Mc Md,
                     dim_task := int (getRows (spec_average Mc Md)),
                     interactionMatrixComputed := True \<rparr>)"
proof -
  from cur have c: "computeInteractionMatrixFromList env (fresh env buf_L) (featureList st)
                      (featureSelectionList st) (L st) = Some (Inr Mc)"
    by (auto simp: computeInteractionMatrix_def Let_def split: option.splits sum.splits)
  from des have d: "computeInteractionMatrixFromList env (fresh env buf_L) (desiredFeatureList st)
                      (featureSelectionList st) (L st) = Some (Inr Md)"
    by (auto simp: computeInteractionMatrix_def Let_def split: option.splits sum.splits)
  then have ne: "desiredFeatureList st \<noteq> []"
    by (auto simp: computeInteractionMatrixFromList_empty)
  from computeInteractionMatrixFromList_stacked [OF ne len wf buf, of "fresh env buf_L"] d
  have md: "Md = \<lparr> colNum = 6, rowPtrs = spec_stacked_rows env (desiredFeatureList st)
                                          (featureSelectionList st) \<rparr>" by simp
  have "getRows (zero_mat (getRows (L st)) (getCols (L st))) = 0 \<or>
        6 \<le> colNum (zero_mat (getRows (L st)) (getCols (L st)))"
    using buf by (auto simp: zero_mat_def getRows_def getCols_def)
  from computeInteractionMatrixFromList_stacked [OF ne len wf this, of "fresh env buf_Lstar"] md
  have ds: "computeInteractionMatrixFromList env (fresh env buf_Lstar) (desiredFeatureList st)
              (featureSelectionList st) (zero_mat (getRows (L st)) (getCols (L st))) = Some (Inr Md)"
    by simp
  from dims have "mat_add Mc Md =
      Inr \<lparr> colNum = colNum Mc,
             rowPtrs = map (\<lambda>(ra, rb). map (\<lambda>(x, y). x + y) (zip ra rb))
                           (zip (rowPtrs Mc) (rowPtrs Md)) \<rparr>"
    by (simp add: mat_add_def getCols_def)
  moreover have "mat_div \<lparr> colNum = colNum Mc,
             rowPtrs = map (\<lambda>(ra, rb). map (\<lambda>(x, y). x + y) (zip ra rb))
                           (zip (rowPtrs Mc) (rowPtrs Md)) \<rparr> 2 = spec_average Mc Md"
    by (simp add: mat_div_def spec_average_def case_prod_unfold comp_def)
  ultimately show ?thesis
    using c ds by (simp add: computeInteractionMatrix_def Let_def)
qed

text \<open>
  At the example task the current feature gives \<open>example_Ls\<close> and the desired feature
  gives \<open>example_L\<close>; the MEAN mode returns the matrix with the rows
  \<open>(2, 0, 0, 0, 0, 0)\<close> and \<open>(0, (1 + 2\<^sup>-\<^sup>2\<^sup>4) / 2, 0, 0, 0, 0)\<close>.
\<close>

theorem mean_is_average_witness:
  "fst (the (computeInteractionMatrix example_env (example_task\<lparr> interactionMatrixType := CURRENT \<rparr>)))
     = Inr example_Ls \<and>
   fst (the (computeInteractionMatrix example_env (example_task\<lparr> interactionMatrixType := DESIRED \<rparr>)))
     = Inr example_L \<and>
   fst (the (computeInteractionMatrix example_env (example_task\<lparr> interactionMatrixType := MEAN \<rparr>)))
     = Inr \<lparr> colNum = 6,
             rowPtrs = [[2, 0, 0, 0, 0, 0], [0, 16777217 / 33554432, 0, 0, 0, 0]] \<rparr>"
proof -
  have cur: "computeInteractionMatrix example_env (example_task\<lparr> interactionMatrixType := CURRENT \<rparr>)
      = Some (Inr example_Ls,
              example_task\<lparr> interactionMatrixType := CURRENT, L := example_Ls, dim_task := 2,
                             interactionMatrixComputed := True \<rparr>)"
    using computeInteractionMatrixFromList_stacked
            [of "[0]" "[3]" example_env empty_mat "fresh example_env buf_L"]
    by (simp add: computeInteractionMatrix_def Let_def example_task_def example_env_def
          wf_interaction_def spec_stacked_rows_def example_Ls_def example_L_def empty_mat_def
          getRows_def)
  have des: "computeInteractionMatrix example_env (example_task\<lparr> interactionMatrixType := DESIRED \<rparr>)
      = Some (Inr example_L,
              example_task\<lparr> interactionMatrixType := DESIRED, L := example_L, dim_task := 2,
                             interactionMatrixComputed := True \<rparr>)"
    using computeInteractionMatrixFromList_stacked
            [of "[1]" "[3]" example_env empty_mat "fresh example_env buf_L"]
    by (simp add: computeInteractionMatrix_def Let_def example_task_def example_env_def
          wf_interaction_def spec_stacked_rows_def example_Ls_def example_L_def empty_mat_def
          getRows_def)
  have av: "spec_average example_Ls example_L =
      \<lparr> colNum = 6, rowPtrs = [[2, 0, 0, 0, 0, 0], [0, 16777217 / 33554432, 0, 0, 0, 0]] \<rparr>"
    by (simp add: spec_average_def example_Ls_def example_L_def)
  have "computeInteractionMatrix example_env (example_task\<lparr> interactionMatrixType := MEAN \<rparr>) =
           Some (Inr (spec_average example_Ls example_L),
                 example_task\<lparr> interactionMatrixType := MEAN, L := spec_average example_Ls example_L,
                     dim_task := int (getRows (spec_average example_Ls example_L)),
                     interactionMatrixComputed := True \<rparr>)"
    by (rule mean_is_average [OF cur des])
       (simp_all add: example_task_def example_env_def wf_interaction_def example_Ls_def
          example_L_def empty_mat_def getRows_def getCols_def)
  with cur des av show ?thesis by simp
qed

text \<open>
  C7. For a non-empty feature list whose features keep the promise of six columns, the
  stacking loop of \<^verbatim>\<open>computeInteractionMatrixFromList\<close> returns the contributions of the
  features one below the other in the order of registration, so the row count is the sum
  of the row counts of the contributions; the result is the same for every buffer \<open>M\<close>
  the loop starts from (any number of rows, that is any initial capacity, where a
  non-empty buffer has its six columns) and for every content \<open>fr\<close> of the cells that
  the reallocations add. Likewise \<^verbatim>\<open>computeError\<close> leaves in \<open>s\<close>, \<open>sStar\<close> and
  \<open>error\<close> the concatenated values, desired values and errors, whatever the three
  vectors \<open>v\<close>, \<open>vStar\<close> and \<open>vError\<close> were before, and the lengths are the sums of
  the lengths of the contributions.
\<close>

theorem stacking_result_independent_of_capacity:
  assumes "fl \<noteq> []" "length fl \<le> length sels"
    "list_all (\<lambda>(c, select). wf_interaction env c select) (zip fl sels)"
    "getRows M = 0 \<or> 6 \<le> colNum M"
    "featureList st \<noteq> []"
    "length (featureList st) \<le> length (desiredFeatureList st)"
    "length (featureList st) \<le> length (featureSelectionList st)"
  shows "computeInteractionMatrixFromList env fr fl sels M =
           Some (Inr \<lparr> colNum = 6, rowPtrs = spec_stacked_rows env fl sels \<rparr>) \<and>
         getRows \<lparr> colNum = 6, rowPtrs = spec_stacked_rows env fl sels \<rparr> =
           sum_list (map (\<lambda>(c, select). getRows (feat_interaction env c select)) (zip fl sels)) \<and>
         computeError env (st\<lparr> s := v, sStar := vStar, error := vError \<rparr>) =
           Some (Inr (concat (map (\<lambda>(c, d, select). feat_error env c d select)
                  (zip (featureList st) (zip (desiredFeatureList st) (featureSelectionList st))))),
             st\<lparr> s := concat (map (feat_get_s env) (featureList st)),
               sStar := concat (map (feat_get_s env)
                           (take (length (featureList st)) (desiredFeatureList st))),
               error := concat (map (\<lambda>(c, d, select). feat_error env c d select)
                  (zip (featureList st) (zip (desiredFeatureList st) (featureSelectionList st)))),
               dim_task := int (length (concat (map (\<lambda>(c, d, select). feat_error env c d select)
                  (zip (featureList st) (zip (desiredFeatureList st) (featureSelectionList st)))))),
               errorComputed := True \<rparr>) \<and>
         length (concat (map (feat_get_s env) (featureList st))) =
           sum_list (map (\<lambda>c. length (feat_get_s env c)) (featureList st)) \<and>
         length (concat (map (\<lambda>(c, d, select). feat_error env c d select)
                  (zip (featureList st) (zip (desiredFeatureList st) (featureSelectionList st))))) =
           sum_list (map (\<lambda>(c, d, select). length (feat_error env c d select))
                  (zip (featureList st) (zip (desiredFeatureList st) (featureSelectionList st))))"
proof -
  have "getRows \<lparr> colNum = 6, rowPtrs = spec_stacked_rows env fl sels \<rparr> =
          sum_list (map (\<lambda>(c, select). getRows (feat_interaction env c select)) (zip fl sels))"
    by (simp add: spec_stacked_rows_def length_concat comp_def getRows_def case_prod_unfold)
  moreover have "computeError env (st\<lparr> s := v, sStar := vStar, error := vError \<rparr>) =
     Some (Inr (concat (map (\<lambda>(c, d, select). feat_error env c d select)
                  (zip (featureList st) (zip (desiredFeatureList st) (featureSelectionList st))))),
           st\<lparr> s := concat (map (feat_get_s env) (featureList st)),
               sStar := concat (map (feat_get_s env)
                           (take (length (featureList st)) (desiredFeatureList st))),
               error := concat (map (\<lambda>(c, d, select). feat_error env c d select)
                  (zip (featureList st) (zip (desiredFeatureList st) (featureSelectionList st)))),
               dim_task := int (length (concat (map (\<lambda>(c, d, select). feat_error env c d select)
                  (zip (featureList st) (zip (desiredFeatureList st) (featureSelectionList st)))))),
               errorComputed := True \<rparr>)"
    using computeError_stacked [of "st\<lparr> s := v, sStar := vStar, error := vError \<rparr>" env] assms(5-7)
    by simp
  moreover have "length (concat (map (feat_get_s env) (featureList st))) =
           sum_list (map (\<lambda>c. length (feat_get_s env c)) (featureList st))"
    by (simp add: length_concat comp_def)
  moreover have "length (concat (map (\<lambda>(c, d, select). feat_error env c d select)
                  (zip (featureList st) (zip (desiredFeatureList st) (featureSelectionList st))))) =
           sum_list (map (\<lambda>(c, d, select). length (feat_error env c d select))
                  (zip (featureList st) (zip (desiredFeatureList st) (featureSelectionList st))))"
    by (simp add: length_concat comp_def case_prod_unfold)
  ultimately show ?thesis
    using computeInteractionMatrixFromList_stacked [OF assms(1-4), of fr] by simp
qed

text \<open>
  The theorem at the example task, from a buffer of a thousand rows for the matrix and
  from vectors of three, zero and seven entries.
\<close>

theorem stacking_result_independent_of_capacity_witness:
  "computeInteractionMatrixFromList example_env (\<lambda>i j. 5) [1] [3] (zero_mat 1000 6) =
     Some (Inr example_L) \<and>
   getRows example_L = 2 \<and>
   computeError example_env
       (example_task\<lparr> s := [7, 7, 7], sStar := [], error := [1, 2, 3, 4, 5, 6, 7] \<rparr>) =
     Some (Inr [1, 1],
           example_task\<lparr> s := [1, 1], sStar := [0, 0], error := [1, 1], dim_task := 2,
                          errorComputed := True \<rparr>)"
  using stacking_result_independent_of_capacity
          [where fl = "[1]" and sels = "[3]" and env = example_env and M = "zero_mat 1000 6"
             and st = example_task and fr = "\<lambda>i j. 5"
             and v = "[7, 7, 7]" and vStar = "[]" and vError = "[1, 2, 3, 4, 5, 6, 7]"]
  by (simp add: example_env_def example_task_def example_L_def wf_interaction_def
        spec_stacked_rows_def zero_mat_def getRows_def)

text \<open>
  C8, as stated, fails. First: \<^verbatim>\<open>kill()\<close> empties the two feature lists and leaves the
  list of the masks, so a feature registered afterwards is measured with the mask of an
  earlier one. The example task has registered feature 0 with the mask 3; after
  \<^verbatim>\<open>kill()\<close>, feature 4 is registered with the mask 1, under which its dimension is 1,
  and \<^verbatim>\<open>getDimension()\<close> returns 2. Second: the sum is a 32-bit integer. With
  feature 7, of dimension \<open>2\<^sup>3\<^sup>1 - 1\<close>, registered beside feature 0, of dimension 2, the
  dimensions add to \<open>2\<^sup>3\<^sup>1 + 1\<close> and \<^verbatim>\<open>getDimension()\<close> returns \<open>- 2\<^sup>3\<^sup>1 + 1\<close>.
\<close>

theorem getDimension_counterexample:
  "featureList (addFeature 4 5 1 (snd (kill example_env example_task))) = [4] \<and>
   featureSelectionList (addFeature 4 5 1 (snd (kill example_env example_task))) = [3, 1] \<and>
   feat_getDimension example_env 4 1 = 1 \<and>
   fst (getDimension example_env (addFeature 4 5 1 (snd (kill example_env example_task)))) = Inr 2 \<and>
   featureList (addFeature 7 8 3 example_task) = [0, 7] \<and>
   featureSelectionList (addFeature 7 8 3 example_task) = [3, 3] \<and>
   feat_getDimension example_env 0 3 + feat_getDimension example_env 7 3 = 2147483649 \<and>
   fst (getDimension example_env (addFeature 7 8 3 example_task)) = Inr (- 2147483647)"
  by code_simp

text \<open>
  C8, amended. When the list of the masks holds one mask for each registered feature,
  \<^verbatim>\<open>getDimension()\<close> returns the sum of \<^verbatim>\<open>getDimension(select)\<close> over the registered
  features with their masks, in the order of registration, as the 32-bit integer that
  holds it, and stores that value in \<open>dim_task\<close>.
\<close>

theorem getDimension_is_sum:
  assumes "length (featureSelectionList st) = length (featureList st)"
  shows "getDimension env st =
           (Inr (int32 (sum_list (map (\<lambda>(c, select). feat_getDimension env c select)
                                     (zip (featureList st) (featureSelectionList st))))),
            st\<lparr> dim_task := int32 (sum_list (map (\<lambda>(c, select). feat_getDimension env c select)
                                     (zip (featureList st) (featureSelectionList st)))) \<rparr>)"
proof -
  have "int32 0 = 0" by (simp add: int32_def)
  with getDimension_loop_sum [of "featureList st" "featureSelectionList st" env 0] assms
  show ?thesis by (simp add: getDimension_def)
qed

theorem getDimension_is_sum_witness:
  "getDimension example_env (addFeature 4 5 1 example_task) =
     (Inr 3, (addFeature 4 5 1 example_task)\<lparr> dim_task := 3 \<rparr>)"
  using getDimension_is_sum [of "addFeature 4 5 1 example_task" example_env]
  by (simp add: addFeature_def example_task_def example_env_def int32_def)

text \<open>
  C9. After a call of \<^verbatim>\<open>kill()\<close> that returned, a second call deletes nothing and leaves
  the task as it is.
\<close>

theorem kill_twice:
  assumes "kill env st = (Inr gone, st1)"
  shows "kill env st1 = (Inr [], st1)"
proof (cases "taskWasKilled st")
  case True
  with assms have "st1 = st" by (simp add: kill_def)
  with True show ?thesis by (simp add: kill_def)
next
  case False
  with assms have "taskWasKilled st1"
    by (auto simp: kill_def split: sum.splits)
  then show ?thesis by (simp add: kill_def)
qed

text \<open>The first call deletes feature 1, which the task owns; the second deletes nothing.\<close>

theorem kill_twice_witness:
  "kill example_env example_task =
     (Inr [1], example_task\<lparr> featureList := [], desiredFeatureList := [], taskWasKilled := True \<rparr>) \<and>
   kill example_env
     (example_task\<lparr> featureList := [], desiredFeatureList := [], taskWasKilled := True \<rparr>) =
     (Inr [], example_task\<lparr> featureList := [], desiredFeatureList := [], taskWasKilled := True \<rparr>)"
proof -
  have k: "kill example_env example_task =
     (Inr [1], example_task\<lparr> featureList := [], desiredFeatureList := [], taskWasKilled := True \<rparr>)"
    by (simp add: kill_def example_task_def example_env_def)
  from kill_twice [OF k] k show ?thesis by simp
qed

text \<open>
  C10. With no feature in the list \<^verbatim>\<open>getDimension()\<close> returns 0, throws nothing and
  stores 0 in \<open>dim_task\<close>, whatever \<open>dim_task\<close> held; with no feature in the two
  feature lists \<^verbatim>\<open>computeInteractionMatrix()\<close> and \<^verbatim>\<open>computeError()\<close> throw
  \<open>noFeatureError\<close> and leave the task, and so \<open>dim_task\<close>, as it was.
\<close>

theorem getDimension_empty_resets_dim_task:
  assumes "featureList st = []" "desiredFeatureList st = []"
  shows "getDimension env st = (Inr 0, st\<lparr> dim_task := 0 \<rparr>) \<and>
         computeInteractionMatrix env st = Some (Inl noFeatureError, st) \<and>
         computeError env st = Some (Inl noFeatureError, st)"
proof -
  have "computeInteractionMatrix env st = Some (Inl noFeatureError, st)"
    using assms
    by (cases "interactionMatrixType st")
       (simp_all add: computeInteractionMatrix_def computeInteractionMatrixFromList_empty Let_def)
  with assms show ?thesis
    by (simp add: getDimension_def computeError_def)
qed

text \<open>The example task without features, \<open>dim_task\<close> holding 2 from an earlier cycle.\<close>

theorem getDimension_empty_resets_dim_task_witness:
  "dim_task example_task_empty = 2 \<and>
   getDimension example_env example_task_empty =
     (Inr 0, example_task_empty\<lparr> dim_task := 0 \<rparr>) \<and>
   dim_task (snd (the (computeInteractionMatrix example_env example_task_empty))) = 2 \<and>
   dim_task (snd (the (computeError example_env example_task_empty))) = 2"
  using getDimension_empty_resets_dim_task [of example_task_empty example_env]
  by (simp add: example_task_empty_def)

end
